theory Spec2Isabelle
  imports Complex_Main
begin

section \<open>Values shared by the relay and the server\<close>

text \<open>
  A decoded JSON value, as \<^verbatim>\<open>encoding/json\<close> hands it to Go code through
  \<^verbatim>\<open>interface{}\<close>: \<^verbatim>\<open>nil\<close>, \<^verbatim>\<open>bool\<close>, \<^verbatim>\<open>float64\<close>, \<^verbatim>\<open>string\<close>,
  \<^verbatim>\<open>[]interface{}\<close> and \<^verbatim>\<open>map[string]interface{}\<close>. The same type stands for a
  marshalled body: the tree that \<^verbatim>\<open>json.Marshal\<close> writes. A \<^verbatim>\<open>float64\<close> is a
  rational here; nothing below does arithmetic on one. A Go map is an association
  list read with \<open>map_of\<close>.
\<close>

datatype json =
    JNull
  | JBool bool
  | JNum rat
  | JStr string
  | JArr "json list"
  | JObj "(string \<times> json) list"

text \<open>The line feed and the single quote, which a string literal cannot hold.\<close>

definition LF :: string where
  "LF = [CHR 0x0A]"

definition SQ :: string where
  "SQ = [CHR 0x27]"

text \<open>\<^verbatim>\<open>strings.HasPrefix\<close> and \<^verbatim>\<open>strings.Contains\<close>, on bytes.\<close>

fun HasPrefix :: "string \<Rightarrow> string \<Rightarrow> bool" where
  "HasPrefix s [] = True"
| "HasPrefix [] (p # ps) = False"
| "HasPrefix (c # s) (p # ps) = (c = p \<and> HasPrefix s ps)"

fun Contains :: "string \<Rightarrow> string \<Rightarrow> bool" where
  "Contains [] substr = (substr = [])"
| "Contains (c # s) substr = (HasPrefix (c # s) substr \<or> Contains s substr)"

text \<open>Go's conversion \<^verbatim>\<open>int(v)\<close> of a \<^verbatim>\<open>float64\<close>: the fraction is dropped.\<close>

definition go_int :: "rat \<Rightarrow> int" where
  "go_int v = (if 0 \<le> v then \<lfloor>v\<rfloor> else \<lceil>v\<rceil>)"

text \<open>Go's remainder \<^verbatim>\<open>a % b\<close> on \<^verbatim>\<open>int\<close> for \<open>b \<noteq> 0\<close>: the sign follows \<open>a\<close>.\<close>

definition go_rem :: "int \<Rightarrow> int \<Rightarrow> int" where
  "go_rem a b = sgn a * (\<bar>a\<bar> mod \<bar>b\<bar>)"

section \<open>relay/converter.go: platforms and formats\<close>

datatype Platform =
    PlatformOpenAI
  | PlatformDeepSeek
  | PlatformAnthropic
  | PlatformGemini
  | PlatformAzure
  | PlatformUnknown

text \<open>
  \<^verbatim>\<open>DetectPlatform\<close>. \<^verbatim>\<open>strings.ToLower\<close> is the library's (it folds Unicode); it is the
  parameter \<open>ToLower\<close>, and every theorem below holds for any such function.
\<close>

definition DetectPlatform :: "(string \<Rightarrow> string) \<Rightarrow> string \<Rightarrow> string \<Rightarrow> Platform" where
  "DetectPlatform ToLower baseURL platform =
     (let p = ToLower platform; lowerURL = ToLower baseURL in
      if p = ''openai'' then PlatformOpenAI
      else if p = ''deepseek'' then PlatformDeepSeek
      else if p = ''anthropic'' \<or> p = ''claude'' then PlatformAnthropic
      else if p = ''gemini'' \<or> p = ''google'' then PlatformGemini
      else if p = ''azure'' then PlatformAzure
      else if Contains lowerURL ''deepseek'' then PlatformDeepSeek
      else if Contains lowerURL ''anthropic'' \<or> Contains lowerURL ''claude'' then PlatformAnthropic
      else if Contains lowerURL ''gemini'' \<or> Contains lowerURL ''google'' then PlatformGemini
      else if Contains lowerURL ''azure'' \<or> Contains lowerURL ''openai.azure'' then PlatformAzure
      else if Contains lowerURL ''openai'' then PlatformOpenAI
      else PlatformUnknown)"

datatype FormatType =
    FormatOpenAI
  | FormatDeepSeek
  | FormatGemini
  | FormatClaude
  | FormatUnknown

section \<open>relay: the unified request and the dialect structs\<close>

record UnifiedMessage =
  m_Role :: string
  m_Content :: json

record ThinkingConfig =
  tc_Enabled :: bool
  tc_Effort :: string

record StreamOptions =
  so_IncludeUsage :: bool

text \<open>\<open>fd_Parameters\<close> is \<open>None\<close> for a nil map.\<close>

record FunctionDefinition =
  fd_Name :: string
  fd_Description :: string
  fd_Parameters :: "(string \<times> json) list option"

record Tool =
  t_Type :: string
  t_Function :: FunctionDefinition

text \<open>
  \<^verbatim>\<open>UnifiedRequest\<close>, with the fields that some importer writes or some exporter
  reads. The struct's other fields (\<^verbatim>\<open>ParallelToolCalls\<close>, \<^verbatim>\<open>ResponseFormat\<close>,
  \<^verbatim>\<open>Seed\<close>, \<^verbatim>\<open>LogProbs\<close>, \<^verbatim>\<open>TopLogProbs\<close>, \<^verbatim>\<open>PromptCacheRetention\<close>,
  \<^verbatim>\<open>ExtraFields\<close>) keep their zero value on every path of the package. A pointer
  field is an option; a slice is a list, whose empty list is the nil slice (the
  importers only ever \<^verbatim>\<open>append\<close> to a nil slice).
\<close>

record UnifiedRequest =
  u_Model :: string
  u_Messages :: "UnifiedMessage list"
  u_MaxTokens :: int
  u_MaxCompletionTokens :: int
  u_Temperature :: "rat option"
  u_TopP :: "rat option"
  u_TopK :: int
  u_N :: int
  u_Stream :: bool
  u_StreamOptions :: "StreamOptions option"
  u_Stop :: json
  u_PresencePenalty :: "rat option"
  u_FrequencyPenalty :: "rat option"
  u_ReasoningEffort :: string
  u_ThinkingConfig :: "ThinkingConfig option"
  u_Tools :: "Tool list"
  u_ToolChoice :: json
  u_User :: string
  u_PromptCacheKey :: string

text \<open>The zero value \<^verbatim>\<open>&UnifiedRequest{}\<close>.\<close>

definition UnifiedRequest_zero :: UnifiedRequest where
  "UnifiedRequest_zero =
     \<lparr>u_Model = [], u_Messages = [], u_MaxTokens = 0, u_MaxCompletionTokens = 0,
      u_Temperature = None, u_TopP = None, u_TopK = 0, u_N = 0, u_Stream = False,
      u_StreamOptions = None, u_Stop = JNull, u_PresencePenalty = None,
      u_FrequencyPenalty = None, u_ReasoningEffort = [], u_ThinkingConfig = None,
      u_Tools = [], u_ToolChoice = JNull, u_User = [], u_PromptCacheKey = []\<rparr>"

record GeminiExecutableCode =
  ec_Language :: string
  ec_Code :: string

record GeminiPart =
  gp_Text :: string
  gp_ExecutableCode :: "GeminiExecutableCode option"
  gp_FunctionCall :: json
  gp_FunctionResponse :: json

record GeminiContent =
  gc_Role :: string
  gc_Parts :: "GeminiPart list"

text \<open>The anonymous struct \<^verbatim>\<open>geminiReq\<close> of \<^verbatim>\<open>GeminiToUnified\<close>.\<close>

record geminiGenerationConfig =
  gg_Temperature :: rat
  gg_MaxTokens :: int
  gg_TopP :: rat

record geminiThinkingConfig =
  gt_IncludeThoughts :: bool
  gt_ThinkingEffort :: string

record geminiReq =
  gr_Model :: string
  gr_Contents :: "GeminiContent list"
  gr_GenerationConfig :: geminiGenerationConfig
  gr_ThinkingConfig :: "geminiThinkingConfig option"

text \<open>The anonymous struct \<^verbatim>\<open>claudeReq\<close> of \<^verbatim>\<open>ClaudeToUnified\<close>.\<close>

record claudeMessage =
  cm_Role :: string
  cm_Content :: json

record claudeTool =
  ct_Name :: string
  ct_Description :: string
  ct_InputSchema :: "(string \<times> json) list option"

record claudeReq =
  cr_Model :: string
  cr_MaxTokens :: int
  cr_Messages :: "claudeMessage list"
  cr_System :: string
  cr_Temperature :: rat
  cr_TopP :: rat
  cr_Stream :: bool
  cr_Stop :: json
  cr_ThinkingEnabled :: "bool option"
  cr_ThinkingBudget :: int
  cr_Tools :: "claudeTool list"

text \<open>
  A request body, seen through the three \<^verbatim>\<open>json.Unmarshal\<close> calls that the package
  makes on it: into a \<^verbatim>\<open>map[string]interface{}\<close> (\<^verbatim>\<open>DetectInputFormat\<close>,
  \<^verbatim>\<open>OpenAIToUnified\<close>), into \<^verbatim>\<open>geminiReq\<close> and into \<^verbatim>\<open>claudeReq\<close>. Decoding is the
  library's work; each result is either its error text (\<open>Inl\<close>) or the decoded value.
\<close>

record request_body =
  rb_map :: "string + (string \<times> json) list"
  rb_gemini :: "string + geminiReq"
  rb_claude :: "string + claudeReq"

section \<open>relay/converter.go: format detection and the importers\<close>

definition DetectInputFormat :: "request_body \<Rightarrow> FormatType" where
  "DetectInputFormat body =
     (case rb_map body of
        Inl err \<Rightarrow> FormatUnknown
      | Inr req \<Rightarrow>
          if map_of req ''contents'' \<noteq> None then FormatGemini
          else if map_of req ''system'' \<noteq> None \<and> map_of req ''max_tokens'' \<noteq> None
            then FormatClaude
          else FormatOpenAI)"

definition reqString :: "(string \<times> json) list \<Rightarrow> string \<Rightarrow> string" where
  "reqString m key = (case map_of m key of Some (JStr s) \<Rightarrow> s | _ \<Rightarrow> [])"

definition reqBool :: "(string \<times> json) list \<Rightarrow> string \<Rightarrow> bool" where
  "reqBool m key = (case map_of m key of Some (JBool b) \<Rightarrow> b | _ \<Rightarrow> False)"

text \<open>The type assertions \<^verbatim>\<open>req[key].(float64)\<close> and \<^verbatim>\<open>req[key]\<close> itself.\<close>

definition reqFloat :: "(string \<times> json) list \<Rightarrow> string \<Rightarrow> rat option" where
  "reqFloat m key = (case map_of m key of Some (JNum v) \<Rightarrow> Some v | _ \<Rightarrow> None)"

definition reqValue :: "(string \<times> json) list \<Rightarrow> string \<Rightarrow> json" where
  "reqValue m key = (case map_of m key of Some v \<Rightarrow> v | None \<Rightarrow> JNull)"

text \<open>The two loops of \<^verbatim>\<open>OpenAIToUnified\<close>, over \<^verbatim>\<open>messages\<close> and over \<^verbatim>\<open>tools\<close>.\<close>

fun openai_messages :: "json list \<Rightarrow> UnifiedMessage list" where
  "openai_messages [] = []"
| "openai_messages (JObj msgMap # msgs) =
     \<lparr>m_Role = reqString msgMap ''role'', m_Content = reqValue msgMap ''content''\<rparr>
       # openai_messages msgs"
| "openai_messages (msg # msgs) = openai_messages msgs"

fun openai_tools :: "json list \<Rightarrow> Tool list" where
  "openai_tools [] = []"
| "openai_tools (JObj toolMap # tools) =
     (if map_of toolMap ''type'' = Some (JStr ''function'') then
        (case map_of toolMap ''function'' of
           Some (JObj funcMap) \<Rightarrow>
             \<lparr>t_Type = ''function'',
              t_Function =
                \<lparr>fd_Name = reqString funcMap ''name'',
                 fd_Description = reqString funcMap ''description'',
                 fd_Parameters =
                   (case map_of funcMap ''parameters'' of
                      Some (JObj p) \<Rightarrow> Some p
                    | _ \<Rightarrow> None)\<rparr>\<rparr>
               # openai_tools tools
         | _ \<Rightarrow> openai_tools tools)
      else openai_tools tools)"
| "openai_tools (tool # tools) = openai_tools tools"

definition OpenAIToUnified :: "request_body \<Rightarrow> string + UnifiedRequest" where
  "OpenAIToUnified body =
     (case rb_map body of
        Inl err \<Rightarrow> Inl (''failed to parse OpenAI request: '' @ err)
      | Inr req \<Rightarrow>
          Inr (UnifiedRequest_zero
            \<lparr>u_Model := reqString req ''model'',
             u_Stream := reqBool req ''stream'',
             u_Messages :=
               (case map_of req ''messages'' of
                  Some (JArr msgs) \<Rightarrow> openai_messages msgs
                | _ \<Rightarrow> []),
             u_MaxTokens :=
               (case reqFloat req ''max_tokens'' of Some v \<Rightarrow> go_int v | None \<Rightarrow> 0),
             u_MaxCompletionTokens :=
               (case reqFloat req ''max_completion_tokens'' of
                  Some v \<Rightarrow> go_int v
                | None \<Rightarrow> 0),
             u_Temperature := reqFloat req ''temperature'',
             u_TopP := reqFloat req ''top_p'',
             u_TopK := (case reqFloat req ''top_k'' of Some v \<Rightarrow> go_int v | None \<Rightarrow> 0),
             u_N := (case reqFloat req ''n'' of Some v \<Rightarrow> go_int v | None \<Rightarrow> 0),
             u_PresencePenalty := reqFloat req ''presence_penalty'',
             u_FrequencyPenalty := reqFloat req ''frequency_penalty'',
             u_Stop := reqValue req ''stop'',
             u_ToolChoice := reqValue req ''tool_choice'',
             u_User := (if reqValue req ''user'' \<noteq> JNull then reqString req ''user'' else []),
             u_StreamOptions :=
               (case map_of req ''stream_options'' of
                  Some (JObj so) \<Rightarrow>
                    (case map_of so ''include_usage'' of
                       Some (JBool include) \<Rightarrow> Some \<lparr>so_IncludeUsage = include\<rparr>
                     | _ \<Rightarrow> None)
                | _ \<Rightarrow> None),
             u_PromptCacheKey :=
               (if reqValue req ''prompt_cache_key'' \<noteq> JNull
                then reqString req ''prompt_cache_key'' else []),
             u_ReasoningEffort := reqString req ''reasoning_effort'',
             u_Tools :=
               (case map_of req ''tools'' of
                  Some (JArr tools) \<Rightarrow> openai_tools tools
                | _ \<Rightarrow> [])\<rparr>))"

text \<open>
  The inner loop of \<^verbatim>\<open>GeminiToUnified\<close> over one content's parts, on the pair
  (\<^verbatim>\<open>contentParts\<close>, \<^verbatim>\<open>textContent\<close>): a part with text resets \<^verbatim>\<open>contentParts\<close> to
  nil before its text is appended.
\<close>

fun gemini_parts :: "GeminiPart list \<Rightarrow> json list \<times> string \<Rightarrow> json list \<times> string" where
  "gemini_parts [] acc = acc"
| "gemini_parts (part # parts) (contentParts, textContent) =
     (let (contentParts1, textContent1) =
            (if gp_Text part \<noteq> [] then ([], textContent @ gp_Text part)
             else (contentParts, textContent));
          contentParts2 =
            (case gp_ExecutableCode part of
               None \<Rightarrow> contentParts1
             | Some ec \<Rightarrow>
                 contentParts1 @ [JObj [(''type'', JStr ''code''), (''code'', JStr (ec_Code ec))]])
      in gemini_parts parts (contentParts2, textContent1))"

definition gemini_message :: "GeminiContent \<Rightarrow> UnifiedMessage" where
  "gemini_message content =
     (let role = (if gc_Role content = ''user'' then ''user''
                  else if gc_Role content = ''model'' then ''assistant''
                  else gc_Role content);
          (contentParts, textContent) = gemini_parts (gc_Parts content) ([], []);
          finalContent =
            (if contentParts \<noteq> [] \<and> textContent \<noteq> [] then
               JArr (JObj [(''type'', JStr ''text''), (''text'', JStr textContent)] # contentParts)
             else if contentParts \<noteq> [] then JArr contentParts
             else JStr textContent)
      in \<lparr>m_Role = role, m_Content = finalContent\<rparr>)"

definition GeminiToUnified :: "request_body \<Rightarrow> string + UnifiedRequest" where
  "GeminiToUnified body =
     (case rb_gemini body of
        Inl err \<Rightarrow> Inl (''failed to parse Gemini request: '' @ err)
      | Inr g \<Rightarrow>
          Inr (UnifiedRequest_zero
            \<lparr>u_Model := gr_Model g,
             u_MaxTokens := gg_MaxTokens (gr_GenerationConfig g),
             u_Temperature :=
               (if 0 < gg_Temperature (gr_GenerationConfig g)
                then Some (gg_Temperature (gr_GenerationConfig g)) else None),
             u_TopP :=
               (if 0 < gg_TopP (gr_GenerationConfig g)
                then Some (gg_TopP (gr_GenerationConfig g)) else None),
             u_ThinkingConfig :=
               (case gr_ThinkingConfig g of
                  None \<Rightarrow> None
                | Some t \<Rightarrow>
                    if gt_IncludeThoughts t
                    then Some \<lparr>tc_Enabled = True, tc_Effort = gt_ThinkingEffort t\<rparr>
                    else None),
             u_Messages := map gemini_message (gr_Contents g)\<rparr>))"

definition claude_effort :: "int \<Rightarrow> string" where
  "claude_effort budget =
     (if 0 < budget then
        (if budget \<le> 1000 then ''low''
         else if 20000 \<le> budget then ''high''
         else ''medium'')
      else ''medium'')"

definition ClaudeToUnified :: "request_body \<Rightarrow> string + UnifiedRequest" where
  "ClaudeToUnified body =
     (case rb_claude body of
        Inl err \<Rightarrow> Inl (''failed to parse Claude request: '' @ err)
      | Inr c \<Rightarrow>
          Inr (UnifiedRequest_zero
            \<lparr>u_Model := cr_Model c,
             u_MaxTokens := cr_MaxTokens c,
             u_Stream := cr_Stream c,
             u_Stop := cr_Stop c,
             u_Temperature := (if 0 < cr_Temperature c then Some (cr_Temperature c) else None),
             u_TopP := (if 0 < cr_TopP c then Some (cr_TopP c) else None),
             u_Messages :=
               (if cr_System c \<noteq> []
                then [\<lparr>m_Role = ''system'', m_Content = JStr (cr_System c)\<rparr>] else [])
               @ map (\<lambda>msg. \<lparr>m_Role = cm_Role msg, m_Content = cm_Content msg\<rparr>)
                   (cr_Messages c),
             u_ThinkingConfig :=
               (if cr_ThinkingEnabled c = Some True
                then Some \<lparr>tc_Enabled = True, tc_Effort = claude_effort (cr_ThinkingBudget c)\<rparr>
                else None),
             u_Tools :=
               map (\<lambda>tool.
                      \<lparr>t_Type = ''function'',
                       t_Function =
                         \<lparr>fd_Name = ct_Name tool,
                          fd_Description = ct_Description tool,
                          fd_Parameters = ct_InputSchema tool\<rparr>\<rparr>)
                   (cr_Tools c)\<rparr>))"

definition ConvertToUnified :: "request_body \<Rightarrow> string + UnifiedRequest" where
  "ConvertToUnified body =
     (case DetectInputFormat body of
        FormatGemini \<Rightarrow> GeminiToUnified body
      | FormatClaude \<Rightarrow> ClaudeToUnified body
      | FormatOpenAI \<Rightarrow> OpenAIToUnified body
      | FormatDeepSeek \<Rightarrow> OpenAIToUnified body
      | FormatUnknown \<Rightarrow> OpenAIToUnified body)"

section \<open>relay/converter.go: the exporters\<close>

text \<open>
  An exporter's result is the tree that \<^verbatim>\<open>json.Marshal\<close> writes for the map or
  struct it built. An object's entries stand in the order the source assigns them
  (\<^verbatim>\<open>encoding/json\<close> writes a map's keys sorted; a reader of the body sees the same
  map either way). \<^verbatim>\<open>json.Marshal\<close> cannot fail on these values, so every exporter
  returns \<open>Inr\<close>; the error branch of the caller is kept.
\<close>

definition entry_if :: "bool \<Rightarrow> string \<Rightarrow> json \<Rightarrow> (string \<times> json) list" where
  "entry_if b k v = (if b then [(k, v)] else [])"

definition entry_opt :: "string \<Rightarrow> rat option \<Rightarrow> (string \<times> json) list" where
  "entry_opt k v = (case v of None \<Rightarrow> [] | Some x \<Rightarrow> [(k, JNum x)])"

text \<open>\<^verbatim>\<open>json.Marshal\<close> of a \<^verbatim>\<open>UnifiedMessage\<close>, a \<^verbatim>\<open>[]UnifiedMessage\<close> (nil is \<^verbatim>\<open>null\<close>),
  a \<^verbatim>\<open>Tool\<close> (\<^verbatim>\<open>omitempty\<close> drops an empty description and an empty or nil map).\<close>

definition marshal_message :: "UnifiedMessage \<Rightarrow> json" where
  "marshal_message m = JObj [(''role'', JStr (m_Role m)), (''content'', m_Content m)]"

definition marshal_messages :: "UnifiedMessage list \<Rightarrow> json" where
  "marshal_messages ms = (if ms = [] then JNull else JArr (map marshal_message ms))"

definition marshal_tool :: "Tool \<Rightarrow> json" where
  "marshal_tool t =
     JObj [(''type'', JStr (t_Type t)),
           (''function'',
            JObj ([(''name'', JStr (fd_Name (t_Function t)))]
                  @ entry_if (fd_Description (t_Function t) \<noteq> []) ''description''
                      (JStr (fd_Description (t_Function t)))
                  @ (case fd_Parameters (t_Function t) of
                       None \<Rightarrow> []
                     | Some p \<Rightarrow> entry_if (p \<noteq> []) ''parameters'' (JObj p))))]"

definition thinking_enabled :: "UnifiedRequest \<Rightarrow> bool" where
  "thinking_enabled unified =
     (case u_ThinkingConfig unified of None \<Rightarrow> False | Some t \<Rightarrow> tc_Enabled t)"

definition thinking_effort :: "UnifiedRequest \<Rightarrow> string" where
  "thinking_effort unified =
     (case u_ThinkingConfig unified of None \<Rightarrow> [] | Some t \<Rightarrow> tc_Effort t)"

definition UnifiedToOpenAI :: "UnifiedRequest \<Rightarrow> string + json" where
  "UnifiedToOpenAI unified =
     Inr (JObj
       ([(''model'', JStr (u_Model unified)),
         (''messages'', marshal_messages (u_Messages unified))]
        @ entry_if (0 < u_MaxTokens unified) ''max_tokens'' (JNum (of_int (u_MaxTokens unified)))
        @ entry_opt ''temperature'' (u_Temperature unified)
        @ entry_opt ''top_p'' (u_TopP unified)
        @ entry_if (u_Stream unified) ''stream'' (JBool (u_Stream unified))
        @ entry_if (u_Stop unified \<noteq> JNull) ''stop'' (u_Stop unified)
        @ entry_opt ''presence_penalty'' (u_PresencePenalty unified)
        @ entry_opt ''frequency_penalty'' (u_FrequencyPenalty unified)
        @ entry_if (u_Tools unified \<noteq> []) ''tools'' (JArr (map marshal_tool (u_Tools unified)))
        @ entry_if (u_ToolChoice unified \<noteq> JNull) ''tool_choice'' (u_ToolChoice unified)
        @ entry_if (thinking_enabled unified) ''reasoning_effort''
            (JStr (thinking_effort unified))))"

text \<open>
  The text of an array content, as \<^verbatim>\<open>extractTextFromContent\<close> and
  \<^verbatim>\<open>normalizeContentForDeepSeek\<close> both collect it: the \<^verbatim>\<open>text\<close> strings of the
  items whose \<^verbatim>\<open>type\<close> is the string \<^verbatim>\<open>text\<close>.
\<close>

fun text_items :: "json list \<Rightarrow> string" where
  "text_items [] = []"
| "text_items (JObj itemMap # arr) =
     (if map_of itemMap ''type'' = Some (JStr ''text'') then
        (case map_of itemMap ''text'' of
           Some (JStr text) \<Rightarrow> text @ text_items arr
         | _ \<Rightarrow> text_items arr)
      else text_items arr)"
| "text_items (item # arr) = text_items arr"

text \<open>
  \<^verbatim>\<open>fmt.Sprintf("%v", content)\<close>, reached for a content that is a number, a boolean
  or an object, is the library's; it is the parameter \<open>Sprintv\<close>.
\<close>

definition extractTextFromContent :: "(json \<Rightarrow> string) \<Rightarrow> json \<Rightarrow> string" where
  "extractTextFromContent Sprintv content =
     (case content of
        JNull \<Rightarrow> []
      | JStr str \<Rightarrow> str
      | JArr arr \<Rightarrow> text_items arr
      | _ \<Rightarrow> Sprintv content)"

definition normalizeContentForDeepSeek :: "(json \<Rightarrow> string) \<Rightarrow> json \<Rightarrow> string" where
  "normalizeContentForDeepSeek Sprintv content =
     (case content of
        JNull \<Rightarrow> []
      | JStr str \<Rightarrow> str
      | JArr arr \<Rightarrow> text_items arr
      | _ \<Rightarrow> Sprintv content)"

definition UnifiedToDeepSeek :: "(json \<Rightarrow> string) \<Rightarrow> UnifiedRequest \<Rightarrow> string + json" where
  "UnifiedToDeepSeek Sprintv unified =
     Inr (JObj
       ([(''model'', JStr (u_Model unified)),
         (''messages'',
          JArr (map (\<lambda>msg. JObj [(''role'', JStr (m_Role msg)),
                                  (''content'',
                                   JStr (normalizeContentForDeepSeek Sprintv (m_Content msg)))])
                  (u_Messages unified)))]
        @ entry_if (0 < u_MaxTokens unified) ''max_tokens'' (JNum (of_int (u_MaxTokens unified)))
        @ entry_opt ''temperature'' (u_Temperature unified)
        @ entry_opt ''top_p'' (u_TopP unified)
        @ entry_if (u_Stream unified) ''stream'' (JBool (u_Stream unified))
        @ entry_if (u_Stop unified \<noteq> JNull) ''stop'' (u_Stop unified)
        @ entry_opt ''presence_penalty'' (u_PresencePenalty unified)
        @ entry_opt ''frequency_penalty'' (u_FrequencyPenalty unified)))"

definition claude_budget :: "string \<Rightarrow> int" where
  "claude_budget effort =
     (if effort = ''low'' then 1000 else if effort = ''high'' then 20000 else 10000)"

definition UnifiedToClaude :: "UnifiedRequest \<Rightarrow> string + json" where
  "UnifiedToClaude unified =
     Inr (JObj
       ([(''model'', JStr (u_Model unified)),
         (''messages'', marshal_messages (u_Messages unified))]
        @ entry_if (0 < u_MaxTokens unified) ''max_tokens'' (JNum (of_int (u_MaxTokens unified)))
        @ entry_opt ''temperature'' (u_Temperature unified)
        @ entry_opt ''top_p'' (u_TopP unified)
        @ entry_if (u_Stream unified) ''stream'' (JBool (u_Stream unified))
        @ entry_if (u_Stop unified \<noteq> JNull) ''stop'' (u_Stop unified)
        @ (if thinking_enabled unified then
             [(''thinking_enabled'', JBool True),
              (''thinking_budget'', JNum (of_int (claude_budget (thinking_effort unified))))]
           else [])))"

text \<open>
  \<^verbatim>\<open>UnifiedToGemini\<close>: the local structs \<^verbatim>\<open>GeminiRequest\<close>, \<^verbatim>\<open>GeminiContent\<close> and
  \<^verbatim>\<open>GeminiPart\<close> are built first and marshalled last.
\<close>

record GeminiOutContent =
  go_Role :: string
  go_Parts :: "string list"

record GeminiOutConfig =
  oc_Temperature :: rat
  oc_MaxTokens :: int
  oc_TopP :: rat
  oc_TopK :: int

record GeminiRequest =
  gq_Contents :: "GeminiOutContent list"
  gq_GenerationConfig :: "GeminiOutConfig option"

definition gemini_out_content :: "(json \<Rightarrow> string) \<Rightarrow> UnifiedMessage \<Rightarrow> GeminiOutContent" where
  "gemini_out_content Sprintv msg =
     \<lparr>go_Role = (if m_Role msg = ''assistant'' then ''model'' else m_Role msg),
      go_Parts =
        [case m_Content msg of
           JNull \<Rightarrow> []
         | JStr str \<Rightarrow> str
         | _ \<Rightarrow> extractTextFromContent Sprintv (m_Content msg)]\<rparr>"

definition UnifiedToGemini_req :: "(json \<Rightarrow> string) \<Rightarrow> UnifiedRequest \<Rightarrow> GeminiRequest" where
  "UnifiedToGemini_req Sprintv unified =
     (let hasConfig = (u_Temperature unified \<noteq> None \<or> 0 < u_MaxTokens unified
                       \<or> u_TopP unified \<noteq> None \<or> 0 < u_TopK unified)
      in \<lparr>gq_Contents = map (gemini_out_content Sprintv) (u_Messages unified),
          gq_GenerationConfig =
            (if hasConfig then
               Some \<lparr>oc_Temperature = (case u_Temperature unified of None \<Rightarrow> 0 | Some t \<Rightarrow> t),
                     oc_MaxTokens = (if 0 < u_MaxTokens unified then u_MaxTokens unified else 0),
                     oc_TopP = (case u_TopP unified of None \<Rightarrow> 0 | Some t \<Rightarrow> t),
                     oc_TopK = (if 0 < u_TopK unified then u_TopK unified else 0)\<rparr>
             else None)\<rparr>)"

definition marshal_GeminiOutContent :: "GeminiOutContent \<Rightarrow> json" where
  "marshal_GeminiOutContent c =
     JObj [(''role'', JStr (go_Role c)),
           (''parts'', JArr (map (\<lambda>text. JObj (entry_if (text \<noteq> []) ''text'' (JStr text)))
                              (go_Parts c)))]"

definition marshal_GeminiRequest :: "GeminiRequest \<Rightarrow> json" where
  "marshal_GeminiRequest req =
     JObj ([(''contents'', JArr (map marshal_GeminiOutContent (gq_Contents req)))]
           @ (case gq_GenerationConfig req of
                None \<Rightarrow> []
              | Some cfg \<Rightarrow>
                  [(''generationConfig'',
                    JObj (entry_if (oc_Temperature cfg \<noteq> 0) ''temperature''
                            (JNum (oc_Temperature cfg))
                          @ entry_if (oc_MaxTokens cfg \<noteq> 0) ''maxOutputTokens''
                              (JNum (of_int (oc_MaxTokens cfg)))
                          @ entry_if (oc_TopP cfg \<noteq> 0) ''topP'' (JNum (oc_TopP cfg))
                          @ entry_if (oc_TopK cfg \<noteq> 0) ''topK''
                              (JNum (of_int (oc_TopK cfg)))))]))"

definition UnifiedToGemini :: "(json \<Rightarrow> string) \<Rightarrow> UnifiedRequest \<Rightarrow> string + json" where
  "UnifiedToGemini Sprintv unified = Inr (marshal_GeminiRequest (UnifiedToGemini_req Sprintv unified))"

definition ConvertFromUnified ::
  "(json \<Rightarrow> string) \<Rightarrow> UnifiedRequest \<Rightarrow> Platform \<Rightarrow> string + json" where
  "ConvertFromUnified Sprintv unified targetPlatform =
     (case targetPlatform of
        PlatformDeepSeek \<Rightarrow> UnifiedToDeepSeek Sprintv unified
      | PlatformOpenAI \<Rightarrow> UnifiedToOpenAI unified
      | PlatformAnthropic \<Rightarrow> UnifiedToClaude unified
      | PlatformGemini \<Rightarrow> UnifiedToGemini Sprintv unified
      | PlatformAzure \<Rightarrow> UnifiedToOpenAI unified
      | PlatformUnknown \<Rightarrow> UnifiedToOpenAI unified)"

section \<open>relay: the adapter (src/unnamed/part_002)\<close>

text \<open>
  \<^verbatim>\<open>Message.NormalizeContent\<close> reads and writes the field \<^verbatim>\<open>Content\<close> only; the
  model is the new value of that field.
\<close>

definition NormalizeContent :: "json \<Rightarrow> json" where
  "NormalizeContent content =
     (case content of
        JArr arr \<Rightarrow>
          (case arr of
             [] \<Rightarrow> JStr []
           | [JObj item] \<Rightarrow>
               (if map_of item ''type'' = Some (JStr ''text'') then
                  (case map_of item ''text'' of
                     Some (JStr text) \<Rightarrow> JStr text
                   | _ \<Rightarrow> content)
                else content)
           | _ \<Rightarrow> content)
      | _ \<Rightarrow> content)"

text \<open>
  \<^verbatim>\<open>IsStreamRequest\<close> on an exported body. The body is decoded into a map again: an
  object gives its entries, \<^verbatim>\<open>null\<close> the nil map, anything else an error.
\<close>

definition IsStreamRequest :: "json \<Rightarrow> bool" where
  "IsStreamRequest body =
     (case body of
        JObj req \<Rightarrow> (case map_of req ''stream'' of Some (JBool stream) \<Rightarrow> stream | _ \<Rightarrow> False)
      | _ \<Rightarrow> False)"

text \<open>
  What a relay does to the client's writer. The input of a relay loop is the list
  of lines that \<^verbatim>\<open>scanner.Text()\<close> returns, one per successful \<^verbatim>\<open>scanner.Scan()\<close>.
\<close>

datatype wr_event = Write string | Flush

fun ForwardStreamResponse :: "string list \<Rightarrow> wr_event list" where
  "ForwardStreamResponse [] = []"
| "ForwardStreamResponse (line # rest) =
     (if HasPrefix line ''data: '' then
        (let data = drop 6 line in
         if data = ''[DONE]'' then [Write (''data: [DONE]'' @ LF @ LF)]
         else Write (''data: '' @ data @ LF @ LF) # Flush # ForwardStreamResponse rest)
      else Flush # ForwardStreamResponse rest)"

section \<open>config (src/unnamed/part_000)\<close>

record ModelRef =
  ref_ID :: string
  ref_Name :: string
  ref_BaseURL :: string
  ref_APIKey :: string
  ref_Platform :: string

record DailyLimit =
  dl_Enabled :: bool
  dl_MaxRequest :: int
  dl_MaxTokens :: int

record ModelGroupConfig =
  grp_ID :: string
  grp_Name :: string
  grp_Enabled :: bool
  grp_Models :: "ModelRef list"
  grp_Strategy :: string
  grp_MaxRetries :: int
  grp_RetryInterval :: int
  grp_MaxConcurrency :: int
  grp_DailyLimit :: DailyLimit
  grp_Type :: string
  grp_MaxTokens :: int
  grp_VisionCapable :: "bool option"
  grp_ToolsCapable :: "bool option"

record ServerConfig =
  sc_Host :: string
  sc_Port :: int

record AccessToken =
  at_Token :: string
  at_Name :: string
  at_Enabled :: bool

record Config =
  cfg_Server :: ServerConfig
  cfg_Tokens :: "AccessToken list"
  cfg_Groups :: "ModelGroupConfig list"
  cfg_HeartbeatTimeout :: int

text \<open>
  \<^verbatim>\<open>Reload\<close>: \<open>loaded\<close> is what reading and decoding the file gave, an error text or
  the new configuration. The result is the returned error and the configuration
  afterwards.
\<close>

definition Reload :: "Config \<Rightarrow> string + Config \<Rightarrow> string option \<times> Config" where
  "Reload c loaded =
     (case loaded of
        Inl err \<Rightarrow> (Some err, c)
      | Inr newCfg \<Rightarrow>
          (None, c\<lparr>cfg_Server := cfg_Server newCfg, cfg_Tokens := cfg_Tokens newCfg,
                   cfg_Groups := cfg_Groups newCfg,
                   cfg_HeartbeatTimeout := cfg_HeartbeatTimeout newCfg\<rparr>))"

definition GetGroupByName :: "Config \<Rightarrow> string \<Rightarrow> ModelGroupConfig option" where
  "GetGroupByName c name = find (\<lambda>grp. grp_Name grp = name) (cfg_Groups c)"

section \<open>server/server.go\<close>

text \<open>
  The server's state: the configuration it points to and the round-robin cursors,
  a Go map from group id to index (a missing key reads as 0).
\<close>

record Server =
  srv_config :: Config
  srv_roundRobinIndex :: "string \<rightharpoonup> int"

definition New :: "Config \<Rightarrow> Server" where
  "New cfg = \<lparr>srv_config = cfg, srv_roundRobinIndex = Map.empty\<rparr>"

text \<open>
  The server holds the pointer \<^verbatim>\<open>config.GlobalConfig\<close>, which \<^verbatim>\<open>Reload\<close> updates in
  place: a reload between two requests changes the configuration the server reads
  and leaves the cursors as they are.
\<close>

definition reloadConfig :: "Server \<Rightarrow> string + Config \<Rightarrow> Server" where
  "reloadConfig s loaded = s\<lparr>srv_config := snd (Reload (srv_config s) loaded)\<rparr>"

text \<open>A run-time panic of the Go code.\<close>

datatype panic =
    IndexOutOfRange int nat
  | DivideByZero
  | IntnInvalidArgument

text \<open>The slice read \<^verbatim>\<open>models[idx]\<close>.\<close>

definition slice_index :: "'a list \<Rightarrow> int \<Rightarrow> panic + 'a" where
  "slice_index xs idx =
     (if 0 \<le> idx \<and> idx < int (length xs) then Inr (xs ! nat idx)
      else Inl (IndexOutOfRange idx (length xs)))"

text \<open>
  \<^verbatim>\<open>selectModel\<close>. \<open>entropy\<close> stands for the seeded generator: \<^verbatim>\<open>rand.Intn(n)\<close>
  returns some index below \<open>n\<close>, here \<open>entropy mod n\<close>. In the round-robin case
  the cursor is stored before the slice is read, so the store survives a panic of
  the read. (\<^verbatim>\<open>idx + 1\<close> cannot overflow: a stored cursor is a remainder by a
  slice length.)
\<close>

definition selectModel :: "nat \<Rightarrow> Server \<Rightarrow> ModelGroupConfig \<Rightarrow> Server \<times> (panic + ModelRef)" where
  "selectModel entropy s grp =
     (let models = grp_Models grp; modelCount = int (length models) in
      if grp_Strategy grp = ''round-robin'' then
        (let idx = (case srv_roundRobinIndex s (grp_ID grp) of None \<Rightarrow> 0 | Some i \<Rightarrow> i) in
         if modelCount = 0 then (s, Inl DivideByZero)
         else (s\<lparr>srv_roundRobinIndex :=
                    (srv_roundRobinIndex s)(grp_ID grp \<mapsto> go_rem (idx + 1) modelCount)\<rparr>,
               slice_index models idx))
      else if grp_Strategy grp = ''random'' then
        (if modelCount \<le> 0 then (s, Inl IntnInvalidArgument)
         else (s, slice_index models (int (entropy mod length models))))
      else if grp_Strategy grp = ''sequential'' then (s, slice_index models 0)
      else (s, slice_index models 0))"

definition validateModelGroup :: "Server \<Rightarrow> string \<Rightarrow> string + ModelGroupConfig" where
  "validateModelGroup s groupName =
     (if groupName = [] then Inl ''model name is required''
      else
        (case GetGroupByName (srv_config s) groupName of
           None \<Rightarrow> Inl (''model group '' @ SQ @ groupName @ SQ @ '' not found'')
         | Some grp \<Rightarrow>
             if \<not> grp_Enabled grp then
               Inl (''model group '' @ SQ @ groupName @ SQ @ '' is disabled'')
             else if grp_Models grp = [] then
               Inl (''no available models in group '' @ SQ @ groupName @ SQ)
             else Inr grp))"

text \<open>
  How a call of \<^verbatim>\<open>chatCompletions\<close> ends: with \<^verbatim>\<open>c.JSON(status, body)\<close>, with
  \<^verbatim>\<open>handleStreamRequest\<close> or \<^verbatim>\<open>handleNormalRequest\<close> on the selected model and the
  exported body (the upstream call), or with a panic of the handler.
\<close>

datatype outcome =
    RespondJSON int json
  | RelayStream ModelRef json
  | RelayNormal ModelRef json
  | Panicked panic

text \<open>\<^verbatim>\<open>gin.H{"error": msg}\<close>.\<close>

definition error_body :: "string \<Rightarrow> json" where
  "error_body msg = JObj [(''error'', JStr msg)]"

text \<open>
  \<^verbatim>\<open>chatCompletions\<close> from the selection on (server.go lines 114 to 146), the part
  that both versions of the handler share.
\<close>

definition chatCompletions_dispatch ::
  "(string \<Rightarrow> string) \<Rightarrow> (json \<Rightarrow> string) \<Rightarrow> nat \<Rightarrow> Server \<Rightarrow> ModelGroupConfig
     \<Rightarrow> UnifiedRequest \<Rightarrow> Server \<times> outcome" where
  "chatCompletions_dispatch ToLower Sprintv entropy s grp unifiedReq =
     (case selectModel entropy s grp of
        (s', Inl p) \<Rightarrow> (s', Panicked p)
      | (s', Inr selectedModel) \<Rightarrow>
          (let unifiedReq' = unifiedReq\<lparr>u_Model := ref_Name selectedModel\<rparr>;
               targetPlatform =
                 DetectPlatform ToLower (ref_BaseURL selectedModel) (ref_Platform selectedModel)
           in case ConvertFromUnified Sprintv unifiedReq' targetPlatform of
                Inl err \<Rightarrow>
                  (s', RespondJSON 500 (error_body (''Failed to convert request: '' @ err)))
              | Inr targetBody \<Rightarrow>
                  if IsStreamRequest targetBody then (s', RelayStream selectedModel targetBody)
                  else (s', RelayNormal selectedModel targetBody)))"

text \<open>
  \<^verbatim>\<open>chatCompletions\<close> of server/server.go. \<open>read\<close> is the result of \<^verbatim>\<open>io.ReadAll\<close>
  on the request.
\<close>

definition chatCompletions ::
  "(string \<Rightarrow> string) \<Rightarrow> (json \<Rightarrow> string) \<Rightarrow> nat \<Rightarrow> Server \<Rightarrow> string + request_body
     \<Rightarrow> Server \<times> outcome" where
  "chatCompletions ToLower Sprintv entropy s read =
     (case read of
        Inl err \<Rightarrow> (s, RespondJSON 400 (error_body ''Failed to read request body''))
      | Inr body \<Rightarrow>
          (case ConvertToUnified body of
             Inl err \<Rightarrow> (s, RespondJSON 400 (error_body (''Failed to convert request: '' @ err)))
           | Inr unifiedReq \<Rightarrow>
               (case validateModelGroup s (u_Model unifiedReq) of
                  Inl errMsg \<Rightarrow>
                    (s, RespondJSON
                          (if Contains errMsg ''not found'' then 404
                           else if Contains errMsg ''disabled'' then 403
                           else 500)
                          (error_body errMsg))
                | Inr grp \<Rightarrow>
                    chatCompletions_dispatch ToLower Sprintv entropy s grp unifiedReq)))"

text \<open>
  \<^verbatim>\<open>chatCompletions\<close> of the other copy of the server (\<^verbatim>\<open>src/unnamed/part_001\<close>), which
  checks the group inline.
\<close>

definition chatCompletions_part001 ::
  "(string \<Rightarrow> string) \<Rightarrow> (json \<Rightarrow> string) \<Rightarrow> nat \<Rightarrow> Server \<Rightarrow> string + request_body
     \<Rightarrow> Server \<times> outcome" where
  "chatCompletions_part001 ToLower Sprintv entropy s read =
     (case read of
        Inl err \<Rightarrow> (s, RespondJSON 400 (error_body ''Failed to read request body''))
      | Inr body \<Rightarrow>
          (case ConvertToUnified body of
             Inl err \<Rightarrow> (s, RespondJSON 400 (error_body (''Failed to convert request: '' @ err)))
           | Inr unifiedReq \<Rightarrow>
               (let modelName = u_Model unifiedReq in
                if modelName = [] then (s, RespondJSON 400 (error_body ''Model name is required''))
                else
                  (case GetGroupByName (srv_config s) modelName of
                     None \<Rightarrow>
                       (s, RespondJSON 404
                             (error_body (''Model group '' @ SQ @ modelName @ SQ @ '' not found'')))
                   | Some grp \<Rightarrow>
                       if \<not> grp_Enabled grp then
                         (s, RespondJSON 403
                               (error_body
                                  (''Model group '' @ SQ @ modelName @ SQ @ '' is disabled'')))
                       else if grp_Models grp = [] then
                         (s, RespondJSON 503
                               (error_body
                                  (''No available models in group '' @ SQ @ modelName @ SQ)))
                       else
                         chatCompletions_dispatch ToLower Sprintv entropy s grp unifiedReq))))"

text \<open>
  \<^verbatim>\<open>handleStreamRequest\<close>, from the upstream call on. \<open>upstream\<close> is the result of
  \<^verbatim>\<open>SendRequestStream\<close>: its error text, or the lines the scanner reads from the
  response body. (gin's writer is always an \<^verbatim>\<open>http.Flusher\<close>.) An upstream error
  becomes one server-sent event named \<^verbatim>\<open>error\<close>.
\<close>

datatype client_event = Wr wr_event | SSEvent string string

fun relay_lines :: "string list \<Rightarrow> wr_event list" where
  "relay_lines [] = []"
| "relay_lines (line # rest) = Write (line @ LF @ LF) # Flush # relay_lines rest"

definition handleStreamRequest :: "string + string list \<Rightarrow> client_event list" where
  "handleStreamRequest upstream =
     (case upstream of
        Inl err \<Rightarrow> [SSEvent ''error'' (''Failed to forward request: '' @ err)]
      | Inr lines \<Rightarrow> map Wr (relay_lines lines))"

section \<open>Runs of the selector\<close>

text \<open>
  Consecutive selections on one group with nothing in between: one call of
  \<^verbatim>\<open>selectModel\<close> per element of the entropy list, each on the state the call
  before it left.
\<close>

fun select_run ::
  "nat list \<Rightarrow> Server \<Rightarrow> ModelGroupConfig \<Rightarrow> Server \<times> (panic + ModelRef) list" where
  "select_run [] s grp = (s, [])"
| "select_run (e # es) s grp =
     (case selectModel e s grp of
        (s1, r) \<Rightarrow> (case select_run es s1 grp of (s2, rs) \<Rightarrow> (s2, r # rs)))"

text \<open>The cursor that a selection on \<open>grp\<close> reads.\<close>

definition cursor :: "Server \<Rightarrow> ModelGroupConfig \<Rightarrow> int" where
  "cursor s grp = (case srv_roundRobinIndex s (grp_ID grp) of None \<Rightarrow> 0 | Some i \<Rightarrow> i)"

section \<open>What a model sees of a body\<close>

text \<open>
  The role and text of each message of a body, in order; these are the terms in
  which the round trips below are stated. The text of a content is the string
  itself, or the concatenation of the text parts of a sequence. \<open>messages_view\<close>
  reads a body with a \<^verbatim>\<open>messages\<close> array (OpenAI, Claude), \<open>contents_view\<close> one
  with a \<^verbatim>\<open>contents\<close> array (Gemini); \<open>claude_view\<close> and \<open>gemini_view\<close> read
  the decoded structs.
\<close>

definition content_text :: "json \<Rightarrow> string" where
  "content_text content =
     (case content of JStr s \<Rightarrow> s | JArr arr \<Rightarrow> text_items arr | _ \<Rightarrow> [])"

fun message_view :: "json \<Rightarrow> string \<times> string" where
  "message_view (JObj m) = (reqString m ''role'', content_text (reqValue m ''content''))"
| "message_view other = ([], [])"

definition body_messages :: "json \<Rightarrow> json list" where
  "body_messages body =
     (case body of
        JObj req \<Rightarrow> (case map_of req ''messages'' of Some (JArr ms) \<Rightarrow> ms | _ \<Rightarrow> [])
      | _ \<Rightarrow> [])"

definition messages_view :: "json \<Rightarrow> (string \<times> string) list" where
  "messages_view body = map message_view (body_messages body)"

fun part_view :: "json \<Rightarrow> string" where
  "part_view (JObj p) = reqString p ''text''"
| "part_view other = []"

fun content_view :: "json \<Rightarrow> string \<times> string" where
  "content_view (JObj c) =
     (reqString c ''role'',
      (case map_of c ''parts'' of Some (JArr ps) \<Rightarrow> concat (map part_view ps) | _ \<Rightarrow> []))"
| "content_view other = ([], [])"

definition contents_view :: "json \<Rightarrow> (string \<times> string) list" where
  "contents_view body =
     (case body of
        JObj req \<Rightarrow> (case map_of req ''contents'' of Some (JArr cs) \<Rightarrow> map content_view cs | _ \<Rightarrow> [])
      | _ \<Rightarrow> [])"

definition claude_view :: "claudeReq \<Rightarrow> (string \<times> string) list" where
  "claude_view c = map (\<lambda>m. (cm_Role m, content_text (cm_Content m))) (cr_Messages c)"

definition gemini_view :: "geminiReq \<Rightarrow> (string \<times> string) list" where
  "gemini_view g = map (\<lambda>c. (gc_Role c, concat (map gp_Text (gc_Parts c)))) (gr_Contents g)"

text \<open>
  A well-formed entry of \<^verbatim>\<open>messages\<close> is an object.
\<close>

definition is_object :: "json \<Rightarrow> bool" where
  "is_object v = (case v of JObj m \<Rightarrow> True | _ \<Rightarrow> False)"

text \<open>
  The content \<^verbatim>\<open>[{"type": "text", "text": t}]\<close>, and a unified request with
  \<^verbatim>\<open>NormalizeContent\<close> applied to every message.
\<close>

definition single_text :: "string \<Rightarrow> json" where
  "single_text t = JArr [JObj [(''type'', JStr ''text''), (''text'', JStr t)]]"

definition normalized :: "UnifiedRequest \<Rightarrow> UnifiedRequest" where
  "normalized u =
     u\<lparr>u_Messages := map (\<lambda>m. m\<lparr>m_Content := NormalizeContent (m_Content m)\<rparr>) (u_Messages u)\<rparr>"

definition is_code_item :: "json \<Rightarrow> bool" where
  "is_code_item v = (\<exists>code. v = JObj [(''type'', JStr ''code''), (''code'', JStr code)])"

section \<open>Example inputs\<close>

text \<open>
  Configurations: a model reference, a group and a configuration from the fields
  that matter here, the others at fixed values.
\<close>

definition mk_ref :: "string \<Rightarrow> string \<Rightarrow> string \<Rightarrow> ModelRef" where
  "mk_ref name baseURL platform =
     \<lparr>ref_ID = name, ref_Name = name, ref_BaseURL = baseURL, ref_APIKey = ''k'',
      ref_Platform = platform\<rparr>"

definition mk_group :: "string \<Rightarrow> bool \<Rightarrow> string \<Rightarrow> ModelRef list \<Rightarrow> ModelGroupConfig" where
  "mk_group name enabled strategy models =
     \<lparr>grp_ID = name, grp_Name = name, grp_Enabled = enabled, grp_Models = models,
      grp_Strategy = strategy, grp_MaxRetries = 0, grp_RetryInterval = 0,
      grp_MaxConcurrency = 0,
      grp_DailyLimit = \<lparr>dl_Enabled = False, dl_MaxRequest = 0, dl_MaxTokens = 0\<rparr>,
      grp_Type = ''chat'', grp_MaxTokens = 0, grp_VisionCapable = None,
      grp_ToolsCapable = None\<rparr>"

definition mk_config :: "ModelGroupConfig list \<Rightarrow> Config" where
  "mk_config groups =
     \<lparr>cfg_Server = \<lparr>sc_Host = ''127.0.0.1'', sc_Port = 8080\<rparr>, cfg_Tokens = [],
      cfg_Groups = groups, cfg_HeartbeatTimeout = 0\<rparr>"

definition ref_a :: ModelRef where
  "ref_a = mk_ref ''a'' ''https://api.openai.com/v1'' ''openai''"

definition ref_b :: ModelRef where
  "ref_b = mk_ref ''b'' ''https://api.deepseek.com'' []"

definition ref_c :: ModelRef where
  "ref_c = mk_ref ''c'' ''https://generativelanguage.googleapis.com'' ''gemini''"

definition group3 :: ModelGroupConfig where
  "group3 = mk_group ''g'' True ''round-robin'' [ref_a, ref_b, ref_c]"

definition group_empty :: ModelGroupConfig where
  "group_empty = mk_group ''g'' True ''round-robin'' []"

definition group_off :: ModelGroupConfig where
  "group_off = mk_group ''not found'' False ''round-robin'' [ref_a]"

definition group1 :: ModelGroupConfig where
  "group1 = mk_group ''g'' True ''round-robin'' [ref_a]"

definition group_gem :: ModelGroupConfig where
  "group_gem = mk_group ''gem'' True ''sequential'' [ref_c]"

text \<open>
  Bodies, each with its three decodings. \<open>body_chat name\<close> is
  \<^verbatim>\<open>{"model": name, "messages": [{"role": "user", "content": "hi"}]}\<close>;
  \<open>body_stream\<close> is the same for the model \<^verbatim>\<open>gem\<close> with \<^verbatim>\<open>"stream": true\<close>;
  \<open>body_mixed\<close> is \<^verbatim>\<open>{"contents": [], "system": "s", "max_tokens": 5}\<close>;
  \<open>body_system_only\<close> is \<^verbatim>\<open>{"model": "g", "system": "s"}\<close>.
\<close>

definition geminiReq_zero :: geminiReq where
  "geminiReq_zero =
     \<lparr>gr_Model = [], gr_Contents = [],
      gr_GenerationConfig = \<lparr>gg_Temperature = 0, gg_MaxTokens = 0, gg_TopP = 0\<rparr>,
      gr_ThinkingConfig = None\<rparr>"

definition claudeReq_zero :: claudeReq where
  "claudeReq_zero =
     \<lparr>cr_Model = [], cr_MaxTokens = 0, cr_Messages = [], cr_System = [], cr_Temperature = 0,
      cr_TopP = 0, cr_Stream = False, cr_Stop = JNull, cr_ThinkingEnabled = None,
      cr_ThinkingBudget = 0, cr_Tools = []\<rparr>"

definition body_chat :: "string \<Rightarrow> request_body" where
  "body_chat name =
     \<lparr>rb_map = Inr [(''model'', JStr name),
                     (''messages'', JArr [JObj [(''role'', JStr ''user''),
                                                (''content'', JStr ''hi'')]])],
      rb_gemini = Inr (geminiReq_zero\<lparr>gr_Model := name\<rparr>),
      rb_claude = Inr (claudeReq_zero\<lparr>cr_Model := name,
                         cr_Messages := [\<lparr>cm_Role = ''user'', cm_Content = JStr ''hi''\<rparr>]\<rparr>)\<rparr>"

definition body_stream :: request_body where
  "body_stream =
     \<lparr>rb_map = Inr [(''model'', JStr ''gem''), (''stream'', JBool True),
                     (''messages'', JArr [JObj [(''role'', JStr ''user''),
                                                (''content'', JStr ''hi'')]])],
      rb_gemini = Inr (geminiReq_zero\<lparr>gr_Model := ''gem''\<rparr>),
      rb_claude = Inr (claudeReq_zero\<lparr>cr_Model := ''gem'', cr_Stream := True,
                         cr_Messages := [\<lparr>cm_Role = ''user'', cm_Content = JStr ''hi''\<rparr>]\<rparr>)\<rparr>"

definition body_mixed :: request_body where
  "body_mixed =
     \<lparr>rb_map = Inr [(''contents'', JArr []), (''system'', JStr ''s''), (''max_tokens'', JNum 5)],
      rb_gemini = Inr geminiReq_zero,
      rb_claude = Inr (claudeReq_zero\<lparr>cr_System := ''s'', cr_MaxTokens := 5\<rparr>)\<rparr>"

definition body_system_only :: request_body where
  "body_system_only =
     \<lparr>rb_map = Inr [(''model'', JStr ''g''), (''system'', JStr ''s'')],
      rb_gemini = Inr (geminiReq_zero\<lparr>gr_Model := ''g''\<rparr>),
      rb_claude = Inr (claudeReq_zero\<lparr>cr_Model := ''g'', cr_System := ''s''\<rparr>)\<rparr>"

text \<open>
  Gemini parts: one that holds executable code only, one that holds text only.
\<close>

definition part_code :: "string \<Rightarrow> GeminiPart" where
  "part_code code =
     \<lparr>gp_Text = [], gp_ExecutableCode = Some \<lparr>ec_Language = ''PYTHON'', ec_Code = code\<rparr>,
      gp_FunctionCall = JNull, gp_FunctionResponse = JNull\<rparr>"

definition part_text :: "string \<Rightarrow> GeminiPart" where
  "part_text text =
     \<lparr>gp_Text = text, gp_ExecutableCode = None, gp_FunctionCall = JNull,
      gp_FunctionResponse = JNull\<rparr>"

text \<open>
  The lines of a stream up to and including the first \<^verbatim>\<open>data: [DONE]\<close>.
\<close>

fun through_done :: "string list \<Rightarrow> string list" where
  "through_done [] = []"
| "through_done (line # rest) =
     (if line = ''data: [DONE]'' then [line] else line # through_done rest)"

text \<open>
  \<open>body_claude\<close> is
  \<^verbatim>\<open>{"model": "m", "max_tokens": 10, "system": "S", "messages": [{"role": "user", "content": "hi"}]}\<close>,
  with the unified request it imports to and the body the Claude exporter makes of
  that. \<open>body_gemini\<close> has a user content with a text part and a code part, and a
  model content with a text part. \<open>body_parts name\<close> is \<open>body_chat name\<close> with
  the content \<^verbatim>\<open>[{"type": "text", "text": "hi"}]\<close>; \<open>unified_parts\<close> and
  \<open>unified_chat\<close> are what the two import to. \<open>Sprintv_unused\<close> stands for
  \<^verbatim>\<open>fmt.Sprintf\<close> where no content reaches it.
\<close>

definition Sprintv_unused :: "json \<Rightarrow> string" where
  "Sprintv_unused v = []"

definition claude_sys :: claudeReq where
  "claude_sys =
     claudeReq_zero\<lparr>cr_Model := ''m'', cr_MaxTokens := 10, cr_System := ''S'',
       cr_Messages := [\<lparr>cm_Role = ''user'', cm_Content = JStr ''hi''\<rparr>]\<rparr>"

definition body_claude :: request_body where
  "body_claude =
     \<lparr>rb_map = Inr [(''model'', JStr ''m''), (''max_tokens'', JNum 10), (''system'', JStr ''S''),
                     (''messages'', JArr [JObj [(''role'', JStr ''user''),
                                                (''content'', JStr ''hi'')]])],
      rb_gemini = Inr (geminiReq_zero\<lparr>gr_Model := ''m''\<rparr>),
      rb_claude = Inr claude_sys\<rparr>"

definition unified_claude :: UnifiedRequest where
  "unified_claude =
     UnifiedRequest_zero\<lparr>u_Model := ''m'', u_MaxTokens := 10,
       u_Messages := [\<lparr>m_Role = ''system'', m_Content = JStr ''S''\<rparr>,
                      \<lparr>m_Role = ''user'', m_Content = JStr ''hi''\<rparr>]\<rparr>"

definition export_claude :: json where
  "export_claude =
     JObj [(''model'', JStr ''m''),
           (''messages'', JArr [JObj [(''role'', JStr ''system''), (''content'', JStr ''S'')],
                                JObj [(''role'', JStr ''user''), (''content'', JStr ''hi'')]]),
           (''max_tokens'', JNum 10)]"

definition body_gemini :: request_body where
  "body_gemini =
     \<lparr>rb_map = Inr [(''contents'',
                      JArr [JObj [(''role'', JStr ''user''),
                                  (''parts'',
                                   JArr [JObj [(''text'', JStr ''run this'')],
                                         JObj [(''executableCode'',
                                                JObj [(''language'', JStr ''PYTHON''),
                                                      (''code'', JStr ''print(1)'')])]])],
                            JObj [(''role'', JStr ''model''),
                                  (''parts'', JArr [JObj [(''text'', JStr ''ok'')]])]])],
      rb_gemini =
        Inr (geminiReq_zero
               \<lparr>gr_Contents :=
                  [\<lparr>gc_Role = ''user'',
                    gc_Parts = [part_text ''run this'', part_code ''print(1)'']\<rparr>,
                   \<lparr>gc_Role = ''model'', gc_Parts = [part_text ''ok'']\<rparr>]\<rparr>),
      rb_claude = Inr claudeReq_zero\<rparr>"

definition body_parts :: "string \<Rightarrow> request_body" where
  "body_parts name =
     \<lparr>rb_map = Inr [(''model'', JStr name),
                     (''messages'', JArr [JObj [(''role'', JStr ''user''),
                                                (''content'', single_text ''hi'')]])],
      rb_gemini = Inr (geminiReq_zero\<lparr>gr_Model := name\<rparr>),
      rb_claude = Inr (claudeReq_zero\<lparr>cr_Model := name,
                         cr_Messages := [\<lparr>cm_Role = ''user'', cm_Content = single_text ''hi''\<rparr>]\<rparr>)\<rparr>"

definition unified_chat :: UnifiedRequest where
  "unified_chat =
     UnifiedRequest_zero\<lparr>u_Model := ''g'',
       u_Messages := [\<lparr>m_Role = ''user'', m_Content = JStr ''hi''\<rparr>]\<rparr>"

definition unified_parts :: UnifiedRequest where
  "unified_parts =
     UnifiedRequest_zero\<lparr>u_Model := ''g'',
       u_Messages := [\<lparr>m_Role = ''user'', m_Content = single_text ''hi''\<rparr>]\<rparr>"

section \<open>The selector\<close>

lemma slice_index_in: "0 \<le> i \<Longrightarrow> i < int (length xs) \<Longrightarrow> slice_index xs i = Inr (xs ! nat i)"
  by (simp add: slice_index_def)

lemma go_rem_nonneg: "0 \<le> a \<Longrightarrow> 0 < b \<Longrightarrow> go_rem a b = a mod b"
  by (simp add: go_rem_def sgn_if)

lemma selectModel_round_robin:
  assumes "grp_Strategy grp = ''round-robin''" and "grp_Models grp \<noteq> []"
  shows "selectModel e s grp =
           (s\<lparr>srv_roundRobinIndex :=
                (srv_roundRobinIndex s)(grp_ID grp \<mapsto>
                   go_rem (cursor s grp + 1) (int (length (grp_Models grp))))\<rparr>,
            slice_index (grp_Models grp) (cursor s grp))"
  using assms by (simp add: selectModel_def cursor_def Let_def)

lemma cursor_after:
  "cursor (s\<lparr>srv_roundRobinIndex := (srv_roundRobinIndex s)(grp_ID grp \<mapsto> c)\<rparr>) grp = c"
  by (simp add: cursor_def)

lemma select_run_round_robin:
  assumes rr: "grp_Strategy grp = ''round-robin''"
  shows "cursor s grp = int k \<Longrightarrow> k + length es \<le> length (grp_Models grp) \<Longrightarrow>
         snd (select_run es s grp) = map Inr (take (length es) (drop k (grp_Models grp)))"
proof (induction es arbitrary: s k)
  case Nil
  then show ?case by simp
next
  case (Cons e es)
  let ?ms = "grp_Models grp"
  let ?n = "length ?ms"
  from Cons.prems have klt: "k < ?n" by simp
  then have ne: "?ms \<noteq> []" by auto
  define s1 where "s1 = s\<lparr>srv_roundRobinIndex :=
                (srv_roundRobinIndex s)(grp_ID grp \<mapsto> go_rem (cursor s grp + 1) (int ?n))\<rparr>"
  have step: "selectModel e s grp = (s1, Inr (?ms ! k))"
    using selectModel_round_robin[OF rr ne, of e s] klt Cons.prems(1)
    by (simp add: s1_def slice_index_in)
  have hd: "take (length (e # es)) (drop k ?ms) = ?ms ! k # take (length es) (drop (Suc k) ?ms)"
    using klt by (simp add: Cons_nth_drop_Suc[symmetric])
  show ?case
  proof (cases es)
    case Nil
    then show ?thesis using step hd by (simp split: prod.splits)
  next
    case (Cons e' es')
    with Cons.prems have lt: "Suc k < ?n" by simp
    have "go_rem (int k + 1) (int ?n) = (int k + 1) mod int ?n"
      by (rule go_rem_nonneg) (use klt in auto)
    also have "\<dots> = int (Suc k)" using lt by simp
    finally have "cursor s1 grp = int (Suc k)"
      using Cons.prems(1) by (simp add: s1_def cursor_after)
    moreover have "Suc k + length es \<le> ?n" using Cons.prems by simp
    ultimately have "snd (select_run es s1 grp) = map Inr (take (length es) (drop (Suc k) ?ms))"
      by (rule Cons.IH)
    then show ?thesis using step hd by (cases "select_run es s1 grp") simp
  qed
qed

text \<open>
  C5. A group with strategy \<^verbatim>\<open>round-robin\<close> and at least one member: a run of as
  many selections as the group has members, with nothing in between and starting
  where the group's id has no cursor yet, returns the members in list order; and a
  selection at a cursor within the list returns the member at that cursor and
  stores the cursor plus one, modulo the number of members.
\<close>

theorem round_robin_visits_in_order:
  assumes "grp_Strategy grp = ''round-robin''"
    and "grp_Models grp \<noteq> []"
  shows "(srv_roundRobinIndex s (grp_ID grp) = None \<and> length es = length (grp_Models grp)
           \<longrightarrow> snd (select_run es s grp) = map Inr (grp_Models grp))
       \<and> (0 \<le> cursor s grp \<and> cursor s grp < int (length (grp_Models grp))
           \<longrightarrow> snd (selectModel e s grp) = Inr (grp_Models grp ! nat (cursor s grp))
             \<and> cursor (fst (selectModel e s grp)) grp
                 = (cursor s grp + 1) mod int (length (grp_Models grp)))"
proof (intro conjI impI)
  assume a: "srv_roundRobinIndex s (grp_ID grp) = None \<and> length es = length (grp_Models grp)"
  then have c0: "cursor s grp = int 0" by (simp add: cursor_def)
  have "snd (select_run es s grp) = map Inr (take (length es) (drop 0 (grp_Models grp)))"
    by (rule select_run_round_robin[OF assms(1) c0]) (use a in simp)
  then show "snd (select_run es s grp) = map Inr (grp_Models grp)" using a by simp
next
  assume b: "0 \<le> cursor s grp \<and> cursor s grp < int (length (grp_Models grp))"
  then show "snd (selectModel e s grp) = Inr (grp_Models grp ! nat (cursor s grp))"
    by (simp add: selectModel_round_robin[OF assms] slice_index_in)
  have "go_rem (cursor s grp + 1) (int (length (grp_Models grp)))
          = (cursor s grp + 1) mod int (length (grp_Models grp))"
    by (rule go_rem_nonneg) (use b in auto)
  then show "cursor (fst (selectModel e s grp)) grp
                 = (cursor s grp + 1) mod int (length (grp_Models grp))"
    by (simp add: selectModel_round_robin[OF assms] cursor_after)
qed

theorem round_robin_visits_in_order_witness:
  "grp_Strategy group3 = ''round-robin'' \<and> grp_Models group3 \<noteq> []
   \<and> srv_roundRobinIndex (New (mk_config [group3])) (grp_ID group3) = None
   \<and> snd (select_run [0, 0, 0] (New (mk_config [group3])) group3)
       = [Inr ref_a, Inr ref_b, Inr ref_c]
   \<and> snd (selectModel 0 (New (mk_config [group3])) group3) = Inr ref_a
   \<and> cursor (fst (selectModel 0 (New (mk_config [group3])) group3)) group3 = 1"
  using round_robin_visits_in_order[of group3 "New (mk_config [group3])" "[0,0,0]" 0]
  by (simp add: group3_def mk_group_def New_def cursor_def)

text \<open>
  Where the selector stays in bounds: on a group with a member, the strategies
  \<^verbatim>\<open>random\<close>, \<^verbatim>\<open>sequential\<close> and any unknown one return a member, and
  \<^verbatim>\<open>round-robin\<close> does when the cursor lies within the list.
\<close>

lemma selectModel_in_bounds:
  assumes "grp_Models grp \<noteq> []"
    and "grp_Strategy grp = ''round-robin''
           \<longrightarrow> 0 \<le> cursor s grp \<and> cursor s grp < int (length (grp_Models grp))"
  shows "\<exists>m \<in> set (grp_Models grp). snd (selectModel entropy s grp) = Inr m"
proof (cases "grp_Strategy grp = ''round-robin''")
  case True
  with assms have "snd (selectModel entropy s grp) = Inr (grp_Models grp ! nat (cursor s grp))"
    by (simp add: selectModel_round_robin slice_index_in)
  moreover have "nat (cursor s grp) < length (grp_Models grp)"
    using True assms(2) by linarith
  then have "grp_Models grp ! nat (cursor s grp) \<in> set (grp_Models grp)"
    by (rule nth_mem)
  ultimately show ?thesis by blast
next
  case False
  have r: "entropy mod length (grp_Models grp) < length (grp_Models grp)"
    using assms(1) by simp
  show ?thesis
  proof (cases "grp_Strategy grp = ''random''")
    case True
    then have "snd (selectModel entropy s grp)
                 = Inr (grp_Models grp ! (entropy mod length (grp_Models grp)))"
      using assms(1) r by (simp add: selectModel_def slice_index_def Let_def)
    then show ?thesis using r nth_mem by blast
  next
    case nr: False
    with False have "snd (selectModel entropy s grp) = Inr (grp_Models grp ! 0)"
      using assms(1) by (simp add: selectModel_def slice_index_def Let_def)
    moreover have "grp_Models grp ! 0 \<in> set (grp_Models grp)"
      using assms(1) by (intro nth_mem) simp
    ultimately show ?thesis by blast
  qed
qed

lemma ConvertToUnified_body_chat:
  "ConvertToUnified (body_chat name) =
     Inr (UnifiedRequest_zero\<lparr>u_Model := name,
            u_Messages := [\<lparr>m_Role = ''user'', m_Content = JStr ''hi''\<rparr>]\<rparr>)"
  by (simp add: ConvertToUnified_def DetectInputFormat_def OpenAIToUnified_def body_chat_def
      reqString_def reqBool_def reqFloat_def reqValue_def UnifiedRequest_zero_def)

text \<open>
  C10. The selector's index is not always in bounds. The group \<^verbatim>\<open>g\<close> has three
  members and is selected twice, which leaves its cursor at 2; the configuration is
  reloaded with \<^verbatim>\<open>g\<close> reduced to one member; the group still validates, and the
  next selection reads \<^verbatim>\<open>models[2]\<close> of a slice of length 1: the handler panics.
\<close>

theorem selectModel_panics_after_shrink:
  "(let s0 = New (mk_config [group3]);
        s1 = fst (selectModel e1 s0 group3);
        s2 = fst (selectModel e2 s1 group3);
        s3 = reloadConfig s2 (Inr (mk_config [group1]))
    in validateModelGroup s3 ''g'' = Inr group1
       \<and> snd (selectModel e3 s3 group1) = Inl (IndexOutOfRange 2 1)
       \<and> snd (chatCompletions ToLower Sprintv e3 s3 (Inr (body_chat ''g'')))
           = Panicked (IndexOutOfRange 2 1))"
  by (simp add: chatCompletions_def ConvertToUnified_body_chat validateModelGroup_def
      GetGroupByName_def New_def mk_config_def group3_def group1_def mk_group_def
      selectModel_def reloadConfig_def Reload_def slice_index_def go_rem_def Let_def
      chatCompletions_dispatch_def)

section \<open>Status codes of the handler\<close>

text \<open>
  The copy of the handler in \<^verbatim>\<open>src/unnamed/part_001\<close> answers 400 to an empty model
  name, 404 to an unknown group, 403 to a disabled group and 503 to an enabled
  group without members, and leaves the server's state as it was.
\<close>

lemma chatCompletions_part001_statuses:
  assumes "ConvertToUnified body = Inr u"
  shows "u_Model u = [] \<longrightarrow>
           chatCompletions_part001 ToLower Sprintv entropy s (Inr body)
             = (s, RespondJSON 400 (error_body ''Model name is required''))"
    and "u_Model u \<noteq> [] \<and> GetGroupByName (srv_config s) (u_Model u) = None \<longrightarrow>
           chatCompletions_part001 ToLower Sprintv entropy s (Inr body)
             = (s, RespondJSON 404
                     (error_body (''Model group '' @ SQ @ u_Model u @ SQ @ '' not found'')))"
    and "u_Model u \<noteq> [] \<and> GetGroupByName (srv_config s) (u_Model u) = Some grp
           \<and> \<not> grp_Enabled grp \<longrightarrow>
           chatCompletions_part001 ToLower Sprintv entropy s (Inr body)
             = (s, RespondJSON 403
                     (error_body (''Model group '' @ SQ @ u_Model u @ SQ @ '' is disabled'')))"
    and "u_Model u \<noteq> [] \<and> GetGroupByName (srv_config s) (u_Model u) = Some grp
           \<and> grp_Enabled grp \<and> grp_Models grp = [] \<longrightarrow>
           chatCompletions_part001 ToLower Sprintv entropy s (Inr body)
             = (s, RespondJSON 503
                     (error_body (''No available models in group '' @ SQ @ u_Model u @ SQ)))"
  using assms by (simp_all add: chatCompletions_part001_def Let_def)

text \<open>
  \<^verbatim>\<open>chatCompletions\<close> of server/server.go on a group that is not configured and
  on a disabled one: 404 for every unknown non-empty name; for a disabled group 403,
  unless the error text, which holds the name, contains \<^verbatim>\<open>not found\<close>.
\<close>

lemma Contains_append_left: "Contains ys substr \<Longrightarrow> Contains (xs @ ys) substr"
proof (induction xs)
  case Nil
  then show ?case by simp
next
  case (Cons x xs)
  then show ?case by simp
qed

lemma chatCompletions_unknown_group:
  assumes "ConvertToUnified body = Inr u" and "u_Model u \<noteq> []"
    and "GetGroupByName (srv_config s) (u_Model u) = None"
  shows "chatCompletions ToLower Sprintv entropy s (Inr body)
           = (s, RespondJSON 404
                   (error_body (''model group '' @ SQ @ u_Model u @ SQ @ '' not found'')))"
proof -
  have "Contains (''model group '' @ SQ @ u_Model u @ SQ @ '' not found'') ''not found''"
    by (intro Contains_append_left) simp
  then show ?thesis using assms by (simp add: chatCompletions_def validateModelGroup_def)
qed

lemma chatCompletions_disabled_group:
  assumes "ConvertToUnified body = Inr u" and "u_Model u \<noteq> []"
    and "GetGroupByName (srv_config s) (u_Model u) = Some grp" and "\<not> grp_Enabled grp"
  shows "chatCompletions ToLower Sprintv entropy s (Inr body)
           = (s, RespondJSON
                   (if Contains (''model group '' @ SQ @ u_Model u @ SQ @ '' is disabled'')
                         ''not found''
                    then 404 else 403)
                   (error_body (''model group '' @ SQ @ u_Model u @ SQ @ '' is disabled'')))"
proof -
  have "Contains (''model group '' @ SQ @ u_Model u @ SQ @ '' is disabled'') ''disabled''"
    by (intro Contains_append_left) simp
  then show ?thesis using assms by (simp add: chatCompletions_def validateModelGroup_def)
qed

text \<open>
  C1. \<^verbatim>\<open>chatCompletions\<close> of server/server.go answers an enabled group without
  members with 500, not 503, and an empty model name with 500, not 400: the status
  is read off the text of \<^verbatim>\<open>validateModelGroup\<close>'s error, and neither text
  contains \<^verbatim>\<open>not found\<close> or \<^verbatim>\<open>disabled\<close>.
\<close>

theorem chatCompletions_empty_group_is_500:
  "chatCompletions ToLower Sprintv entropy (New (mk_config [group_empty])) (Inr (body_chat ''g''))
     = (New (mk_config [group_empty]),
        RespondJSON 500 (error_body (''no available models in group '' @ SQ @ ''g'' @ SQ)))
   \<and> chatCompletions ToLower Sprintv entropy (New (mk_config [group_empty])) (Inr (body_chat []))
     = (New (mk_config [group_empty]), RespondJSON 500 (error_body ''model name is required''))"
  by (simp add: chatCompletions_def ConvertToUnified_body_chat validateModelGroup_def
      GetGroupByName_def New_def mk_config_def group_empty_def mk_group_def SQ_def)

text \<open>
  C7. \<^verbatim>\<open>chatCompletions\<close> of server/server.go answers the disabled group named
  \<^verbatim>\<open>not found\<close> with 404, not 403: the error text holds the group's name, and
  the test for \<^verbatim>\<open>not found\<close> comes first. The state is unchanged and nothing is
  relayed.
\<close>

theorem chatCompletions_disabled_group_is_404:
  "chatCompletions ToLower Sprintv entropy (New (mk_config [group_off])) (Inr (body_chat ''not found''))
     = (New (mk_config [group_off]),
        RespondJSON 404 (error_body (''model group '' @ SQ @ ''not found'' @ SQ @ '' is disabled'')))"
  by (simp add: chatCompletions_def ConvertToUnified_body_chat validateModelGroup_def
      GetGroupByName_def New_def mk_config_def group_off_def mk_group_def SQ_def)

section \<open>Format detection\<close>

text \<open>
  C4. For a body that decodes into a map, the format is Gemini when the key
  \<^verbatim>\<open>contents\<close> is present; otherwise Claude when \<^verbatim>\<open>system\<close> and \<^verbatim>\<open>max_tokens\<close>
  are both present; otherwise OpenAI. So \<^verbatim>\<open>contents\<close> with \<^verbatim>\<open>system\<close> and
  \<^verbatim>\<open>max_tokens\<close> is Gemini, and \<^verbatim>\<open>system\<close> without \<^verbatim>\<open>max_tokens\<close> (and without
  \<^verbatim>\<open>contents\<close>) is OpenAI.
\<close>

theorem DetectInputFormat_first_match:
  assumes "rb_map body = Inr req"
  shows "DetectInputFormat body =
           (if ''contents'' \<in> fst ` set req then FormatGemini
            else if ''system'' \<in> fst ` set req \<and> ''max_tokens'' \<in> fst ` set req
              then FormatClaude
            else FormatOpenAI)
       \<and> (''contents'' \<in> fst ` set req \<and> ''system'' \<in> fst ` set req
            \<and> ''max_tokens'' \<in> fst ` set req \<longrightarrow> DetectInputFormat body = FormatGemini)
       \<and> (''contents'' \<notin> fst ` set req \<and> ''system'' \<in> fst ` set req
            \<and> ''max_tokens'' \<notin> fst ` set req \<longrightarrow> DetectInputFormat body = FormatOpenAI)"
  using assms by (simp add: DetectInputFormat_def map_of_eq_None_iff del: not_None_eq)

theorem DetectInputFormat_first_match_witness:
  "rb_map body_mixed
     = Inr [(''contents'', JArr []), (''system'', JStr ''s''), (''max_tokens'', JNum 5)]
   \<and> DetectInputFormat body_mixed = FormatGemini
   \<and> rb_map body_system_only = Inr [(''model'', JStr ''g''), (''system'', JStr ''s'')]
   \<and> DetectInputFormat body_system_only = FormatOpenAI"
  using DetectInputFormat_first_match[of body_mixed
          "[(''contents'', JArr []), (''system'', JStr ''s''), (''max_tokens'', JNum 5)]"]
        DetectInputFormat_first_match[of body_system_only
          "[(''model'', JStr ''g''), (''system'', JStr ''s'')]"]
  by (simp add: body_mixed_def body_system_only_def)

section \<open>The Gemini importer\<close>

text \<open>
  C6. A Gemini content whose parts are an executable-code part followed by a text
  part is imported as the bare text: the code part is lost, because a part with text
  resets the collected parts. In the other order the content is the two-part
  sequence, text first.
\<close>

theorem gemini_message_drops_code_before_text:
  "gemini_message \<lparr>gc_Role = ''user'', gc_Parts = [part_code ''print(1)'', part_text ''run this'']\<rparr>
     = \<lparr>m_Role = ''user'', m_Content = JStr ''run this''\<rparr>
   \<and> gemini_message \<lparr>gc_Role = ''user'', gc_Parts = [part_text ''run this'', part_code ''print(1)'']\<rparr>
     = \<lparr>m_Role = ''user'',
        m_Content = JArr [JObj [(''type'', JStr ''text''), (''text'', JStr ''run this'')],
                          JObj [(''type'', JStr ''code''), (''code'', JStr ''print(1)'')]]\<rparr>"
  by (simp add: gemini_message_def part_code_def part_text_def)

section \<open>The Gemini exporter and the stream check\<close>

lemma marshal_GeminiRequest_no_stream:
  "\<exists>entries. marshal_GeminiRequest req = JObj entries \<and> map_of entries ''stream'' = None"
  by (simp add: marshal_GeminiRequest_def split: option.split)

lemma IsStreamRequest_marshal_GeminiRequest: "\<not> IsStreamRequest (marshal_GeminiRequest req)"
  by (simp add: IsStreamRequest_def marshal_GeminiRequest_def split: option.split)

lemma dispatch_gemini:
  assumes "selectModel entropy s grp = (s1, Inr m)"
    and "DetectPlatform ToLower (ref_BaseURL m) (ref_Platform m) = PlatformGemini"
  shows "chatCompletions_dispatch ToLower Sprintv entropy s grp u =
           (s1, RelayNormal m
                  (marshal_GeminiRequest (UnifiedToGemini_req Sprintv (u\<lparr>u_Model := ref_Name m\<rparr>))))"
  using assms
  by (simp add: chatCompletions_dispatch_def ConvertFromUnified_def UnifiedToGemini_def
      IsStreamRequest_marshal_GeminiRequest Let_def)

lemma dispatch_stream_not_gemini:
  assumes "chatCompletions_dispatch ToLower Sprintv entropy s grp u = (s', RelayStream m targetBody)"
  shows "DetectPlatform ToLower (ref_BaseURL m) (ref_Platform m) \<noteq> PlatformGemini"
proof
  assume g: "DetectPlatform ToLower (ref_BaseURL m) (ref_Platform m) = PlatformGemini"
  obtain s1 r where sel: "selectModel entropy s grp = (s1, r)" by (cases "selectModel entropy s grp")
  show False
  proof (cases r)
    case (Inl p)
    with sel assms show False by (simp add: chatCompletions_dispatch_def)
  next
    case (Inr m')
    with sel assms have "m' = m"
      by (auto simp: chatCompletions_dispatch_def Let_def split: sum.splits if_splits)
    with Inr sel g have "chatCompletions_dispatch ToLower Sprintv entropy s grp u =
           (s1, RelayNormal m
                  (marshal_GeminiRequest (UnifiedToGemini_req Sprintv (u\<lparr>u_Model := ref_Name m\<rparr>))))"
      by (intro dispatch_gemini) simp_all
    with assms show False by simp
  qed
qed

lemma ConvertToUnified_body_stream:
  "ConvertToUnified body_stream =
     Inr (UnifiedRequest_zero\<lparr>u_Model := ''gem'', u_Stream := True,
            u_Messages := [\<lparr>m_Role = ''user'', m_Content = JStr ''hi''\<rparr>]\<rparr>)"
  by (simp add: ConvertToUnified_def DetectInputFormat_def OpenAIToUnified_def body_stream_def
      reqString_def reqBool_def reqFloat_def reqValue_def UnifiedRequest_zero_def)

text \<open>
  C9. The body that the Gemini exporter produces is an object without a \<^verbatim>\<open>stream\<close>
  entry, on which \<^verbatim>\<open>IsStreamRequest\<close> is false. So no call of the handler, in
  either copy, ends in the streaming relay on a model whose platform is Gemini; a
  request that validates and selects such a model ends in the buffered relay with
  the Gemini body, whatever the inbound \<^verbatim>\<open>stream\<close> flag.
\<close>

theorem gemini_export_never_streams:
  assumes "DetectPlatform ToLower (ref_BaseURL m) (ref_Platform m) = PlatformGemini"
  shows "(\<exists>entries. UnifiedToGemini Sprintv unified = Inr (JObj entries)
            \<and> map_of entries ''stream'' = None \<and> \<not> IsStreamRequest (JObj entries))
       \<and> chatCompletions ToLower Sprintv entropy s read \<noteq> (s', RelayStream m targetBody)
       \<and> chatCompletions_part001 ToLower Sprintv entropy s read \<noteq> (s', RelayStream m targetBody)
       \<and> (ConvertToUnified body = Inr u \<and> validateModelGroup s (u_Model u) = Inr grp
            \<and> selectModel entropy s grp = (s1, Inr m)
          \<longrightarrow> chatCompletions ToLower Sprintv entropy s (Inr body)
                = (s1, RelayNormal m
                         (marshal_GeminiRequest
                            (UnifiedToGemini_req Sprintv (u\<lparr>u_Model := ref_Name m\<rparr>)))))"
proof (intro conjI impI)
  obtain entries where e: "marshal_GeminiRequest (UnifiedToGemini_req Sprintv unified) = JObj entries"
      "map_of entries ''stream'' = None"
    using marshal_GeminiRequest_no_stream by blast
  moreover have "\<not> IsStreamRequest (JObj entries)"
    using IsStreamRequest_marshal_GeminiRequest[of "UnifiedToGemini_req Sprintv unified"] e by simp
  ultimately show "\<exists>entries. UnifiedToGemini Sprintv unified = Inr (JObj entries)
            \<and> map_of entries ''stream'' = None \<and> \<not> IsStreamRequest (JObj entries)"
    by (simp add: UnifiedToGemini_def)
next
  show "chatCompletions ToLower Sprintv entropy s read \<noteq> (s', RelayStream m targetBody)"
  proof
    assume a: "chatCompletions ToLower Sprintv entropy s read = (s', RelayStream m targetBody)"
    then obtain grp u where
      "chatCompletions_dispatch ToLower Sprintv entropy s grp u = (s', RelayStream m targetBody)"
      by (auto simp: chatCompletions_def split: sum.splits)
    from dispatch_stream_not_gemini[OF this] assms show False by simp
  qed
next
  show "chatCompletions_part001 ToLower Sprintv entropy s read \<noteq> (s', RelayStream m targetBody)"
  proof
    assume a: "chatCompletions_part001 ToLower Sprintv entropy s read
                 = (s', RelayStream m targetBody)"
    then obtain grp u where
      "chatCompletions_dispatch ToLower Sprintv entropy s grp u = (s', RelayStream m targetBody)"
      by (auto simp: chatCompletions_part001_def Let_def split: sum.splits option.splits if_splits)
    from dispatch_stream_not_gemini[OF this] assms show False by simp
  qed
next
  assume "ConvertToUnified body = Inr u \<and> validateModelGroup s (u_Model u) = Inr grp
            \<and> selectModel entropy s grp = (s1, Inr m)"
  then show "chatCompletions ToLower Sprintv entropy s (Inr body)
                = (s1, RelayNormal m
                         (marshal_GeminiRequest
                            (UnifiedToGemini_req Sprintv (u\<lparr>u_Model := ref_Name m\<rparr>))))"
    using assms by (simp add: chatCompletions_def dispatch_gemini)
qed

theorem gemini_export_never_streams_witness:
  "DetectPlatform (\<lambda>s. s) (ref_BaseURL ref_c) (ref_Platform ref_c) = PlatformGemini
   \<and> ConvertToUnified body_stream =
       Inr (UnifiedRequest_zero\<lparr>u_Model := ''gem'', u_Stream := True,
              u_Messages := [\<lparr>m_Role = ''user'', m_Content = JStr ''hi''\<rparr>]\<rparr>)
   \<and> chatCompletions (\<lambda>s. s) (\<lambda>v. []) 0 (New (mk_config [group_gem])) (Inr body_stream)
       = (New (mk_config [group_gem]),
          RelayNormal ref_c
            (JObj [(''contents'',
                    JArr [JObj [(''role'', JStr ''user''),
                                (''parts'', JArr [JObj [(''text'', JStr ''hi'')]])]])]))"
proof -
  have p: "DetectPlatform (\<lambda>s. s) (ref_BaseURL ref_c) (ref_Platform ref_c) = PlatformGemini"
    by (simp add: DetectPlatform_def ref_c_def mk_ref_def)
  have v: "validateModelGroup (New (mk_config [group_gem])) ''gem'' = Inr group_gem"
    by (simp add: validateModelGroup_def GetGroupByName_def New_def mk_config_def group_gem_def
        mk_group_def)
  have sel: "selectModel 0 (New (mk_config [group_gem])) group_gem
               = (New (mk_config [group_gem]), Inr ref_c)"
    by (simp add: selectModel_def group_gem_def mk_group_def slice_index_def)
  have m: "marshal_GeminiRequest
             (UnifiedToGemini_req (\<lambda>v. [])
                (UnifiedRequest_zero\<lparr>u_Model := ''gem'', u_Stream := True,
                   u_Messages := [\<lparr>m_Role = ''user'', m_Content = JStr ''hi''\<rparr>]\<rparr>
                 \<lparr>u_Model := ref_Name ref_c\<rparr>))
           = JObj [(''contents'',
                    JArr [JObj [(''role'', JStr ''user''),
                                (''parts'', JArr [JObj [(''text'', JStr ''hi'')]])]])]"
    by (simp add: marshal_GeminiRequest_def UnifiedToGemini_req_def UnifiedRequest_zero_def
        gemini_out_content_def marshal_GeminiOutContent_def entry_if_def)
  show ?thesis
    using gemini_export_never_streams[OF p, of "\<lambda>v. []" UnifiedRequest_zero 0
            "New (mk_config [group_gem])" "Inr body_stream" "New (mk_config [group_gem])" JNull
            body_stream
            "UnifiedRequest_zero\<lparr>u_Model := ''gem'', u_Stream := True,
              u_Messages := [\<lparr>m_Role = ''user'', m_Content = JStr ''hi''\<rparr>]\<rparr>"
            group_gem "New (mk_config [group_gem])"]
      p v sel m ConvertToUnified_body_stream
    by simp
qed

section \<open>The streaming relays\<close>

lemma HasPrefix_append_drop: "HasPrefix s p \<Longrightarrow> p @ drop (length p) s = s"
  by (induction s p rule: HasPrefix.induct) auto

lemma HasPrefix_append: "HasPrefix (p @ s) p"
  by (induction p) auto

text \<open>
  \<^verbatim>\<open>ForwardStreamResponse\<close> writes the \<^verbatim>\<open>data:\<close> lines up to and including the
  first \<^verbatim>\<open>data: [DONE]\<close>, each followed by two line feeds, and nothing else; the
  loop of \<^verbatim>\<open>handleStreamRequest\<close> writes every line so.
\<close>

lemma data_prefix:
  assumes "HasPrefix line ''data: ''"
  shows "''data: '' @ drop 6 line = line"
proof -
  have len: "length ''data: '' = 6" by simp
  show ?thesis using HasPrefix_append_drop[OF assms] unfolding len .
qed

lemma data_done_iff:
  "HasPrefix line ''data: '' \<and> drop 6 line = ''[DONE]'' \<longleftrightarrow> line = ''data: [DONE]''"
proof
  assume a: "HasPrefix line ''data: '' \<and> drop 6 line = ''[DONE]''"
  then have "''data: '' @ drop 6 line = line"
    by (intro data_prefix) simp
  with a have "''data: '' @ ''[DONE]'' = line" by simp
  then show "line = ''data: [DONE]''" by simp
next
  assume "line = ''data: [DONE]''"
  then show "HasPrefix line ''data: '' \<and> drop 6 line = ''[DONE]''" by simp
qed

lemma ForwardStreamResponse_writes:
  "filter (\<lambda>e. e \<noteq> Flush) (ForwardStreamResponse lines)
     = map (\<lambda>line. Write (line @ LF @ LF))
         (filter (\<lambda>line. HasPrefix line ''data: '') (through_done lines))"
proof (induction lines)
  case Nil
  then show ?case by simp
next
  case (Cons line rest)
  show ?case
  proof (cases "HasPrefix line ''data: ''")
    case False
    then have "line \<noteq> ''data: [DONE]''" by auto
    with False Cons show ?thesis by simp
  next
    case True
    then have eq: "''data: '' @ drop 6 line = line"
      by (rule data_prefix)
    show ?thesis
    proof (cases "drop 6 line = ''[DONE]''")
      case d: True
      with True have "line = ''data: [DONE]''" using data_done_iff by blast
      then show ?thesis by simp
    next
      case d: False
      with True have nd: "line \<noteq> ''data: [DONE]''" using data_done_iff by blast
      have "''data: '' @ drop 6 line @ LF @ LF = line @ LF @ LF"
        using eq by (metis append.assoc)
      with True d Cons nd show ?thesis
        by (simp add: Let_def del: append.simps)
    qed
  qed
qed

lemma relay_lines_all:
  "filter (\<lambda>e. e \<noteq> Flush) (relay_lines lines) = map (\<lambda>line. Write (line @ LF @ LF)) lines"
  by (induction lines) simp_all

text \<open>
  C2. \<^verbatim>\<open>handleStreamRequest\<close>, the relay that the handler calls, does not stop at
  \<^verbatim>\<open>data: [DONE]\<close>: the line after the marker is written to the client too.
  \<^verbatim>\<open>ForwardStreamResponse\<close> stops there on the same lines.
\<close>

theorem handleStreamRequest_forwards_after_done:
  "handleStreamRequest (Inr [''data: [DONE]'', ''data: late''])
     = [Wr (Write (''data: [DONE]'' @ LF @ LF)), Wr Flush,
        Wr (Write (''data: late'' @ LF @ LF)), Wr Flush]
   \<and> ForwardStreamResponse [''data: [DONE]'', ''data: late'']
     = [Write (''data: [DONE]'' @ LF @ LF)]"
  by (simp add: handleStreamRequest_def)

section \<open>Export after import\<close>

lemma messages_view_marshal:
  "messages_view (JObj ((''model'', v) # (''messages'', marshal_messages ms) # rest))
     = map (\<lambda>m. (m_Role m, content_text (m_Content m))) ms"
  by (simp add: messages_view_def body_messages_def marshal_messages_def marshal_message_def
      reqString_def reqValue_def comp_def)

lemma openai_messages_objects:
  "list_all is_object msgs \<Longrightarrow>
   map (\<lambda>m. (m_Role m, content_text (m_Content m))) (openai_messages msgs)
     = map message_view msgs"
  by (induction msgs rule: openai_messages.induct) (simp_all add: is_object_def)

lemma u_Messages_OpenAIToUnified:
  "rb_map body = Inr req \<Longrightarrow>
   \<exists>u. OpenAIToUnified body = Inr u \<and> u_Messages u = openai_messages (body_messages (JObj req))"
  by (simp add: OpenAIToUnified_def body_messages_def split: option.split json.split)

lemma messages_view_UnifiedToOpenAI:
  "\<exists>out. UnifiedToOpenAI u = Inr out
         \<and> messages_view out = map (\<lambda>m. (m_Role m, content_text (m_Content m))) (u_Messages u)"
  by (simp add: UnifiedToOpenAI_def messages_view_marshal)

lemma messages_view_UnifiedToClaude:
  "\<exists>out. UnifiedToClaude u = Inr out
         \<and> messages_view out = map (\<lambda>m. (m_Role m, content_text (m_Content m))) (u_Messages u)"
  by (simp add: UnifiedToClaude_def messages_view_marshal)

lemma u_Messages_ClaudeToUnified:
  "rb_claude body = Inr c \<Longrightarrow>
   \<exists>u. ClaudeToUnified body = Inr u
      \<and> map (\<lambda>m. (m_Role m, content_text (m_Content m))) (u_Messages u)
          = (if cr_System c \<noteq> [] then [(''system'', cr_System c)] else []) @ claude_view c"
  by (simp add: ClaudeToUnified_def claude_view_def content_text_def comp_def)

lemma text_items_code: "list_all is_code_item items \<Longrightarrow> text_items items = []"
  by (induction items) (auto simp: is_code_item_def)

lemma gemini_parts_text:
  "snd (gemini_parts parts acc) = snd acc @ concat (map gp_Text parts)"
  by (induction parts acc rule: gemini_parts.induct) (simp_all add: Let_def)

lemma gemini_parts_code:
  "list_all is_code_item (fst acc) \<Longrightarrow> list_all is_code_item (fst (gemini_parts parts acc))"
  by (induction parts acc rule: gemini_parts.induct)
     (auto simp: Let_def is_code_item_def split: option.splits)

lemma gemini_roundtrip_message:
  assumes "gc_Role c \<noteq> ''assistant''"
  shows "gemini_out_content Sprintv (gemini_message c)
           = \<lparr>go_Role = gc_Role c, go_Parts = [concat (map gp_Text (gc_Parts c))]\<rparr>"
proof -
  obtain cps tx where g: "gemini_parts (gc_Parts c) ([], []) = (cps, tx)"
    by (cases "gemini_parts (gc_Parts c) ([], [])")
  have tx: "tx = concat (map gp_Text (gc_Parts c))"
    using gemini_parts_text[of "gc_Parts c" "([], [])"] g by simp
  have "list_all is_code_item cps"
    using gemini_parts_code[of "([], [])" "gc_Parts c"] g by simp
  then have ti: "text_items cps = []" by (rule text_items_code)
  show ?thesis using assms g ti
    by (cases cps)
       (auto simp: gemini_out_content_def gemini_message_def extractTextFromContent_def tx[symmetric])
qed

lemma reqString_Cons:
  "reqString ((k, v) # m) key
     = (if k = key then (case v of JStr s \<Rightarrow> s | _ \<Rightarrow> []) else reqString m key)"
  by (simp add: reqString_def)

lemma contents_view_marshal:
  "contents_view (marshal_GeminiRequest req)
     = map (\<lambda>c. (go_Role c, concat (go_Parts c))) (gq_Contents req)"
proof -
  have p: "reqString (entry_if (t \<noteq> []) ''text'' (JStr t)) ''text'' = t" for t
    by (simp add: entry_if_def reqString_def)
  have "concat (map (\<lambda>t. reqString (entry_if (t \<noteq> []) ''text'' (JStr t)) ''text'') ts)
          = concat ts" for ts
    by (induction ts) (simp_all add: p)
  then show ?thesis
    by (simp add: contents_view_def marshal_GeminiRequest_def marshal_GeminiOutContent_def
        comp_def p reqString_Cons split: option.split)
qed

text \<open>
  C3, as stated, fails for Claude: the body with \<^verbatim>\<open>system\<close> \<^verbatim>\<open>"S"\<close> and one user
  message is exported with two messages, the first with role \<^verbatim>\<open>system\<close>, so the
  exported messages are not the body's messages.
\<close>

theorem claude_export_adds_system_message: "DetectInputFormat body_claude = FormatClaude
   \<and> rb_claude body_claude = Inr claude_sys
   \<and> ConvertToUnified body_claude = Inr unified_claude
   \<and> ConvertFromUnified Sprintv_unused unified_claude PlatformAnthropic = Inr export_claude
   \<and> messages_view export_claude = [(''system'', ''S''), (''user'', ''hi'')]
   \<and> claude_view claude_sys = [(''user'', ''hi'')]
   \<and> messages_view export_claude \<noteq> claude_view claude_sys"
  by (simp add: DetectInputFormat_def body_claude_def ConvertToUnified_def ClaudeToUnified_def
      claude_sys_def claudeReq_zero_def unified_claude_def UnifiedRequest_zero_def
      ConvertFromUnified_def UnifiedToClaude_def export_claude_def marshal_messages_def
      marshal_message_def entry_if_def entry_opt_def thinking_enabled_def messages_view_def
      body_messages_def reqString_def reqValue_def content_text_def claude_view_def)

text \<open>
  C3, amended. Export after import keeps the role and the text of every message, in
  order, for an OpenAI body whose \<^verbatim>\<open>messages\<close> entries are objects and for a Gemini
  body whose roles are \<^verbatim>\<open>user\<close> and \<^verbatim>\<open>model\<close> (any role but \<^verbatim>\<open>assistant\<close>). For
  a Claude body the exported messages are the body's messages, role and text kept,
  after one more message with role \<^verbatim>\<open>system\<close> and the body's \<^verbatim>\<open>system\<close> text when
  that text is not empty.
\<close>

theorem export_import_preserves_messages:
  shows "(DetectInputFormat body = FormatOpenAI \<and> rb_map body = Inr req
            \<and> list_all is_object (body_messages (JObj req))
          \<longrightarrow> (\<exists>u out. ConvertToUnified body = Inr u
                 \<and> ConvertFromUnified Sprintv u PlatformOpenAI = Inr out
                 \<and> messages_view out = messages_view (JObj req)))
       \<and> (DetectInputFormat body = FormatGemini \<and> rb_gemini body = Inr g
            \<and> list_all (\<lambda>c. gc_Role c \<noteq> ''assistant'') (gr_Contents g)
          \<longrightarrow> (\<exists>u out. ConvertToUnified body = Inr u
                 \<and> ConvertFromUnified Sprintv u PlatformGemini = Inr out
                 \<and> contents_view out = gemini_view g))
       \<and> (DetectInputFormat body = FormatClaude \<and> rb_claude body = Inr c
          \<longrightarrow> (\<exists>u out. ConvertToUnified body = Inr u
                 \<and> ConvertFromUnified Sprintv u PlatformAnthropic = Inr out
                 \<and> messages_view out
                     = (if cr_System c \<noteq> [] then [(''system'', cr_System c)] else [])
                       @ claude_view c))"
proof (intro conjI impI)
  assume a: "DetectInputFormat body = FormatOpenAI \<and> rb_map body = Inr req
            \<and> list_all is_object (body_messages (JObj req))"
  then obtain u where u: "OpenAIToUnified body = Inr u"
      "u_Messages u = openai_messages (body_messages (JObj req))"
    using u_Messages_OpenAIToUnified by blast
  obtain out where out: "UnifiedToOpenAI u = Inr out"
      "messages_view out = map (\<lambda>m. (m_Role m, content_text (m_Content m))) (u_Messages u)"
    using messages_view_UnifiedToOpenAI by blast
  have "messages_view out = messages_view (JObj req)"
    using a u(2) out(2) by (simp add: openai_messages_objects messages_view_def)
  with a u(1) out(1) show "\<exists>u out. ConvertToUnified body = Inr u
                 \<and> ConvertFromUnified Sprintv u PlatformOpenAI = Inr out
                 \<and> messages_view out = messages_view (JObj req)"
    by (simp add: ConvertToUnified_def ConvertFromUnified_def)
next
  assume a: "DetectInputFormat body = FormatGemini \<and> rb_gemini body = Inr g
            \<and> list_all (\<lambda>c. gc_Role c \<noteq> ''assistant'') (gr_Contents g)"
  then obtain u where u: "GeminiToUnified body = Inr u"
      "u_Messages u = map gemini_message (gr_Contents g)"
    by (simp add: GeminiToUnified_def)
  have "map (gemini_out_content Sprintv \<circ> gemini_message) (gr_Contents g)
          = map (\<lambda>c. \<lparr>go_Role = gc_Role c, go_Parts = [concat (map gp_Text (gc_Parts c))]\<rparr>)
              (gr_Contents g)"
    using a by (intro map_cong) (simp_all add: gemini_roundtrip_message list_all_iff)
  then have "contents_view (marshal_GeminiRequest (UnifiedToGemini_req Sprintv u)) = gemini_view g"
    using u(2)
    by (simp add: contents_view_marshal UnifiedToGemini_req_def gemini_view_def Let_def comp_def)
  with a u(1) show "\<exists>u out. ConvertToUnified body = Inr u
                 \<and> ConvertFromUnified Sprintv u PlatformGemini = Inr out
                 \<and> contents_view out = gemini_view g"
    by (simp add: ConvertToUnified_def ConvertFromUnified_def UnifiedToGemini_def)
next
  assume a: "DetectInputFormat body = FormatClaude \<and> rb_claude body = Inr c"
  then obtain u where u: "ClaudeToUnified body = Inr u"
      "map (\<lambda>m. (m_Role m, content_text (m_Content m))) (u_Messages u)
          = (if cr_System c \<noteq> [] then [(''system'', cr_System c)] else []) @ claude_view c"
    using u_Messages_ClaudeToUnified by blast
  obtain out where out: "UnifiedToClaude u = Inr out"
      "messages_view out = map (\<lambda>m. (m_Role m, content_text (m_Content m))) (u_Messages u)"
    using messages_view_UnifiedToClaude by blast
  with a u show "\<exists>u out. ConvertToUnified body = Inr u
                 \<and> ConvertFromUnified Sprintv u PlatformAnthropic = Inr out
                 \<and> messages_view out
                     = (if cr_System c \<noteq> [] then [(''system'', cr_System c)] else [])
                       @ claude_view c"
    by (simp add: ConvertToUnified_def ConvertFromUnified_def)
qed

theorem export_import_preserves_messages_witness:
  "DetectInputFormat (body_chat ''g'') = FormatOpenAI
   \<and> (\<exists>u out. ConvertToUnified (body_chat ''g'') = Inr u
         \<and> ConvertFromUnified Sprintv_unused u PlatformOpenAI = Inr out
         \<and> messages_view out = [(''user'', ''hi'')])
   \<and> DetectInputFormat body_gemini = FormatGemini
   \<and> (\<exists>u out. ConvertToUnified body_gemini = Inr u
         \<and> ConvertFromUnified Sprintv_unused u PlatformGemini = Inr out
         \<and> contents_view out = [(''user'', ''run this''), (''model'', ''ok'')])
   \<and> DetectInputFormat body_claude = FormatClaude
   \<and> (\<exists>u out. ConvertToUnified body_claude = Inr u
         \<and> ConvertFromUnified Sprintv_unused u PlatformAnthropic = Inr out
         \<and> messages_view out = [(''system'', ''S''), (''user'', ''hi'')])"
proof -
  let ?req = "[(''model'', JStr ''g''),
               (''messages'', JArr [JObj [(''role'', JStr ''user''), (''content'', JStr ''hi'')]])]"
  let ?g = "geminiReq_zero
               \<lparr>gr_Contents :=
                  [\<lparr>gc_Role = ''user'',
                    gc_Parts = [part_text ''run this'', part_code ''print(1)'']\<rparr>,
                   \<lparr>gc_Role = ''model'', gc_Parts = [part_text ''ok'']\<rparr>]\<rparr>"
  have o: "DetectInputFormat (body_chat ''g'') = FormatOpenAI \<and> rb_map (body_chat ''g'') = Inr ?req
            \<and> list_all is_object (body_messages (JObj ?req))"
    by (simp add: DetectInputFormat_def body_chat_def body_messages_def is_object_def)
  have ov: "messages_view (JObj ?req) = [(''user'', ''hi'')]"
    by (simp add: messages_view_def body_messages_def reqString_def reqValue_def content_text_def)
  have g: "DetectInputFormat body_gemini = FormatGemini \<and> rb_gemini body_gemini = Inr ?g
            \<and> list_all (\<lambda>c. gc_Role c \<noteq> ''assistant'') (gr_Contents ?g)"
    by (simp add: DetectInputFormat_def body_gemini_def)
  have gv: "gemini_view ?g = [(''user'', ''run this''), (''model'', ''ok'')]"
    by (simp add: gemini_view_def part_text_def part_code_def)
  have c: "DetectInputFormat body_claude = FormatClaude \<and> rb_claude body_claude = Inr claude_sys"
    by (simp add: DetectInputFormat_def body_claude_def)
  have cv: "(if cr_System claude_sys \<noteq> [] then [(''system'', cr_System claude_sys)] else [])
              @ claude_view claude_sys = [(''system'', ''S''), (''user'', ''hi'')]"
    by (simp add: claude_view_def claude_sys_def content_text_def)
  show ?thesis
    using export_import_preserves_messages[of "body_chat ''g''" ?req Sprintv_unused]
      export_import_preserves_messages[of body_gemini _ Sprintv_unused ?g]
      export_import_preserves_messages[of body_claude _ Sprintv_unused _ claude_sys]
      o ov g gv c cv
    by simp
qed

section \<open>A single text part and the bare string\<close>

lemma openai_messages_append:
  "openai_messages (xs @ ys) = openai_messages xs @ openai_messages ys"
  by (induction xs rule: openai_messages.induct) simp_all

lemma NormalizeContent_single_text: "NormalizeContent (single_text t) = JStr t"
  by (simp add: NormalizeContent_def single_text_def)

lemma NormalizeContent_JStr: "NormalizeContent (JStr t) = JStr t"
  by (simp add: NormalizeContent_def)

lemma normalizeContentForDeepSeek_single_text:
  "normalizeContentForDeepSeek Sprintv (single_text t) = normalizeContentForDeepSeek Sprintv (JStr t)"
  by (simp add: normalizeContentForDeepSeek_def single_text_def)

lemma gemini_out_content_single_text:
  "gemini_out_content Sprintv \<lparr>m_Role = r, m_Content = single_text t\<rparr>
     = gemini_out_content Sprintv \<lparr>m_Role = r, m_Content = JStr t\<rparr>"
  by (simp add: gemini_out_content_def extractTextFromContent_def single_text_def)

text \<open>Two unified requests that differ in one message's content only.\<close>

lemma unified_pair:
  assumes "u_Messages u1 = A @ [\<lparr>m_Role = r, m_Content = single_text t\<rparr>] @ B"
    and "u2 = u1\<lparr>u_Messages := A @ [\<lparr>m_Role = r, m_Content = JStr t\<rparr>] @ B\<rparr>"
  shows "normalized u1 = normalized u2"
    and "UnifiedToDeepSeek Sprintv u1 = UnifiedToDeepSeek Sprintv u2"
    and "UnifiedToGemini Sprintv u1 = UnifiedToGemini Sprintv u2"
proof -
  show "normalized u1 = normalized u2"
    using assms
    by (simp add: normalized_def NormalizeContent_single_text NormalizeContent_JStr)
  show "UnifiedToDeepSeek Sprintv u1 = UnifiedToDeepSeek Sprintv u2"
    using assms by (simp add: UnifiedToDeepSeek_def normalizeContentForDeepSeek_single_text)
  show "UnifiedToGemini Sprintv u1 = UnifiedToGemini Sprintv u2"
    using assms
    by (simp add: UnifiedToGemini_def UnifiedToGemini_req_def gemini_out_content_single_text)
qed

lemma OpenAIToUnified_pair:
  assumes r1: "rb_map b1 = Inr req1" and r2: "rb_map b2 = Inr req2"
    and other: "\<forall>k. k \<noteq> ''messages'' \<longrightarrow> map_of req1 k = map_of req2 k"
    and m1: "map_of req1 ''messages'' = Some (JArr (pre @ [JObj msg1] @ post))"
    and m2: "map_of req2 ''messages'' = Some (JArr (pre @ [JObj msg2] @ post))"
    and role: "map_of msg1 ''role'' = map_of msg2 ''role''"
    and c1: "map_of msg1 ''content'' = Some (single_text t)"
    and c2: "map_of msg2 ''content'' = Some (JStr t)"
  shows "\<exists>u1 u2 A B r. OpenAIToUnified b1 = Inr u1 \<and> OpenAIToUnified b2 = Inr u2
           \<and> u_Messages u1 = A @ [\<lparr>m_Role = r, m_Content = single_text t\<rparr>] @ B
           \<and> u2 = u1\<lparr>u_Messages := A @ [\<lparr>m_Role = r, m_Content = JStr t\<rparr>] @ B\<rparr>"
proof -
  have mo: "map_of req1 k = map_of req2 k" if "k \<noteq> ''messages''" for k
    using other that by simp
  have rs: "reqString req1 k = reqString req2 k" if "k \<noteq> ''messages''" for k
    using other that by (simp add: reqString_def)
  have rb: "reqBool req1 k = reqBool req2 k" if "k \<noteq> ''messages''" for k
    using other that by (simp add: reqBool_def)
  have rf: "reqFloat req1 k = reqFloat req2 k" if "k \<noteq> ''messages''" for k
    using other that by (simp add: reqFloat_def)
  have rv: "reqValue req1 k = reqValue req2 k" if "k \<noteq> ''messages''" for k
    using other that by (simp add: reqValue_def)
  have ro: "reqString msg1 ''role'' = reqString msg2 ''role''"
    using role by (simp add: reqString_def)
  show ?thesis
    apply (rule exI[of _ "projr (OpenAIToUnified b1)"])
    apply (rule exI[of _ "projr (OpenAIToUnified b2)"])
    apply (rule exI[of _ "openai_messages pre"])
    apply (rule exI[of _ "openai_messages post"])
    apply (rule exI[of _ "reqString msg1 ''role''"])
    using r1 r2 m1 m2 c1 c2 ro
    by (simp add: OpenAIToUnified_def openai_messages_append rs rb rf rv mo reqValue_def)
qed

lemma ClaudeToUnified_pair:
  assumes r1: "rb_claude b1 = Inr c1" and r2: "rb_claude b2 = Inr c2"
    and m1: "cr_Messages c1 = cpre @ [\<lparr>cm_Role = r, cm_Content = single_text t\<rparr>] @ cpost"
    and m2: "c2 = c1\<lparr>cr_Messages := cpre @ [\<lparr>cm_Role = r, cm_Content = JStr t\<rparr>] @ cpost\<rparr>"
  shows "\<exists>u1 u2 A B. ClaudeToUnified b1 = Inr u1 \<and> ClaudeToUnified b2 = Inr u2
           \<and> u_Messages u1 = A @ [\<lparr>m_Role = r, m_Content = single_text t\<rparr>] @ B
           \<and> u2 = u1\<lparr>u_Messages := A @ [\<lparr>m_Role = r, m_Content = JStr t\<rparr>] @ B\<rparr>"
  apply (rule exI[of _ "projr (ClaudeToUnified b1)"])
  apply (rule exI[of _ "projr (ClaudeToUnified b2)"])
  apply (rule exI[of _ "(if cr_System c1 \<noteq> []
                          then [\<lparr>m_Role = ''system'', m_Content = JStr (cr_System c1)\<rparr>] else [])
                        @ map (\<lambda>msg. \<lparr>m_Role = cm_Role msg, m_Content = cm_Content msg\<rparr>) cpre"])
  apply (rule exI[of _ "map (\<lambda>msg. \<lparr>m_Role = cm_Role msg, m_Content = cm_Content msg\<rparr>) cpost"])
  using assms by (simp add: ClaudeToUnified_def)

lemma ConvertToUnified_body_parts: "ConvertToUnified (body_parts ''g'') = Inr unified_parts"
  by (simp add: ConvertToUnified_def DetectInputFormat_def OpenAIToUnified_def body_parts_def
      reqString_def reqBool_def reqFloat_def reqValue_def UnifiedRequest_zero_def
      unified_parts_def single_text_def)

text \<open>
  C8, as stated, fails: the OpenAI exporter and the Claude exporter copy a message's
  content as it is, so the body with the one-part sequence and the body with the
  bare string are exported differently.
\<close>

theorem openai_export_keeps_single_text_part:
  "ConvertToUnified (body_parts ''g'') = Inr unified_parts
   \<and> ConvertToUnified (body_chat ''g'') = Inr unified_chat
   \<and> UnifiedToOpenAI unified_parts
       = Inr (JObj [(''model'', JStr ''g''),
                    (''messages'', JArr [JObj [(''role'', JStr ''user''),
                                               (''content'', single_text ''hi'')]])])
   \<and> UnifiedToOpenAI unified_chat
       = Inr (JObj [(''model'', JStr ''g''),
                    (''messages'', JArr [JObj [(''role'', JStr ''user''),
                                               (''content'', JStr ''hi'')]])])
   \<and> UnifiedToOpenAI unified_parts \<noteq> UnifiedToOpenAI unified_chat
   \<and> UnifiedToClaude unified_parts \<noteq> UnifiedToClaude unified_chat"
  by (simp add: ConvertToUnified_body_parts ConvertToUnified_body_chat unified_chat_def
      unified_parts_def UnifiedToOpenAI_def UnifiedToClaude_def UnifiedRequest_zero_def
      marshal_messages_def marshal_message_def entry_if_def entry_opt_def thinking_enabled_def
      single_text_def)

text \<open>
  C8, amended. Two OpenAI bodies, or two Claude bodies, that differ only in one
  message's content, the one-part sequence with the text \<open>t\<close> against the bare
  string \<open>t\<close>: the two unified requests are equal once \<^verbatim>\<open>NormalizeContent\<close> is
  applied to every message, and the DeepSeek exporter and the Gemini exporter produce
  the same output for both.
\<close>

theorem single_text_part_equivalence:
  "(DetectInputFormat b1 = FormatOpenAI \<and> DetectInputFormat b2 = FormatOpenAI
      \<and> rb_map b1 = Inr req1 \<and> rb_map b2 = Inr req2
      \<and> (\<forall>k. k \<noteq> ''messages'' \<longrightarrow> map_of req1 k = map_of req2 k)
      \<and> map_of req1 ''messages'' = Some (JArr (pre @ [JObj msg1] @ post))
      \<and> map_of req2 ''messages'' = Some (JArr (pre @ [JObj msg2] @ post))
      \<and> (\<forall>k. k \<noteq> ''content'' \<longrightarrow> map_of msg1 k = map_of msg2 k)
      \<and> map_of msg1 ''content'' = Some (single_text t)
      \<and> map_of msg2 ''content'' = Some (JStr t)
    \<longrightarrow> (\<exists>u1 u2. ConvertToUnified b1 = Inr u1 \<and> ConvertToUnified b2 = Inr u2
           \<and> normalized u1 = normalized u2
           \<and> UnifiedToDeepSeek Sprintv u1 = UnifiedToDeepSeek Sprintv u2
           \<and> UnifiedToGemini Sprintv u1 = UnifiedToGemini Sprintv u2))
   \<and> (DetectInputFormat b1 = FormatClaude \<and> DetectInputFormat b2 = FormatClaude
      \<and> rb_claude b1 = Inr c1 \<and> rb_claude b2 = Inr c2
      \<and> cr_Messages c1 = cpre @ [\<lparr>cm_Role = r, cm_Content = single_text t\<rparr>] @ cpost
      \<and> c2 = c1\<lparr>cr_Messages := cpre @ [\<lparr>cm_Role = r, cm_Content = JStr t\<rparr>] @ cpost\<rparr>
    \<longrightarrow> (\<exists>u1 u2. ConvertToUnified b1 = Inr u1 \<and> ConvertToUnified b2 = Inr u2
           \<and> normalized u1 = normalized u2
           \<and> UnifiedToDeepSeek Sprintv u1 = UnifiedToDeepSeek Sprintv u2
           \<and> UnifiedToGemini Sprintv u1 = UnifiedToGemini Sprintv u2))"
proof (intro conjI impI)
  assume a: "DetectInputFormat b1 = FormatOpenAI \<and> DetectInputFormat b2 = FormatOpenAI
      \<and> rb_map b1 = Inr req1 \<and> rb_map b2 = Inr req2
      \<and> (\<forall>k. k \<noteq> ''messages'' \<longrightarrow> map_of req1 k = map_of req2 k)
      \<and> map_of req1 ''messages'' = Some (JArr (pre @ [JObj msg1] @ post))
      \<and> map_of req2 ''messages'' = Some (JArr (pre @ [JObj msg2] @ post))
      \<and> (\<forall>k. k \<noteq> ''content'' \<longrightarrow> map_of msg1 k = map_of msg2 k)
      \<and> map_of msg1 ''content'' = Some (single_text t)
      \<and> map_of msg2 ''content'' = Some (JStr t)"
  from a have f1: "DetectInputFormat b1 = FormatOpenAI" and f2: "DetectInputFormat b2 = FormatOpenAI"
    and r1: "rb_map b1 = Inr req1" and r2: "rb_map b2 = Inr req2"
    and m1: "map_of req1 ''messages'' = Some (JArr (pre @ [JObj msg1] @ post))"
    and m2: "map_of req2 ''messages'' = Some (JArr (pre @ [JObj msg2] @ post))"
    and c1: "map_of msg1 ''content'' = Some (single_text t)"
    and c2: "map_of msg2 ''content'' = Some (JStr t)"
    by simp_all
  from a have role: "map_of msg1 ''role'' = map_of msg2 ''role''" by simp
  from a have other: "\<forall>k. k \<noteq> ''messages'' \<longrightarrow> map_of req1 k = map_of req2 k"
    by simp
  from OpenAIToUnified_pair[OF r1 r2 other m1 m2 role c1 c2]
  obtain u1 u2 A B ro where p: "OpenAIToUnified b1 = Inr u1" "OpenAIToUnified b2 = Inr u2"
      "u_Messages u1 = A @ [\<lparr>m_Role = ro, m_Content = single_text t\<rparr>] @ B"
      "u2 = u1\<lparr>u_Messages := A @ [\<lparr>m_Role = ro, m_Content = JStr t\<rparr>] @ B\<rparr>"
    by (elim exE conjE)
  have cu: "ConvertToUnified b1 = Inr u1" "ConvertToUnified b2 = Inr u2"
    using f1 f2 p(1,2) by (simp_all add: ConvertToUnified_def)
  show "\<exists>u1 u2. ConvertToUnified b1 = Inr u1 \<and> ConvertToUnified b2 = Inr u2
           \<and> normalized u1 = normalized u2
           \<and> UnifiedToDeepSeek Sprintv u1 = UnifiedToDeepSeek Sprintv u2
           \<and> UnifiedToGemini Sprintv u1 = UnifiedToGemini Sprintv u2"
    using cu unified_pair[OF p(3,4)] by (intro exI conjI)
next
  assume a: "DetectInputFormat b1 = FormatClaude \<and> DetectInputFormat b2 = FormatClaude
      \<and> rb_claude b1 = Inr c1 \<and> rb_claude b2 = Inr c2
      \<and> cr_Messages c1 = cpre @ [\<lparr>cm_Role = r, cm_Content = single_text t\<rparr>] @ cpost
      \<and> c2 = c1\<lparr>cr_Messages := cpre @ [\<lparr>cm_Role = r, cm_Content = JStr t\<rparr>] @ cpost\<rparr>"
  then have f1: "DetectInputFormat b1 = FormatClaude" and f2: "DetectInputFormat b2 = FormatClaude"
    and r1: "rb_claude b1 = Inr c1" and r2: "rb_claude b2 = Inr c2"
    and m1: "cr_Messages c1 = cpre @ [\<lparr>cm_Role = r, cm_Content = single_text t\<rparr>] @ cpost"
    and m2: "c2 = c1\<lparr>cr_Messages := cpre @ [\<lparr>cm_Role = r, cm_Content = JStr t\<rparr>] @ cpost\<rparr>"
    by blast+
  from ClaudeToUnified_pair[OF r1 r2 m1 m2]
  obtain u1 u2 A B where p: "ClaudeToUnified b1 = Inr u1" "ClaudeToUnified b2 = Inr u2"
      "u_Messages u1 = A @ [\<lparr>m_Role = r, m_Content = single_text t\<rparr>] @ B"
      "u2 = u1\<lparr>u_Messages := A @ [\<lparr>m_Role = r, m_Content = JStr t\<rparr>] @ B\<rparr>"
    by (elim exE conjE)
  have cu: "ConvertToUnified b1 = Inr u1" "ConvertToUnified b2 = Inr u2"
    using f1 f2 p(1,2) by (simp_all add: ConvertToUnified_def)
  show "\<exists>u1 u2. ConvertToUnified b1 = Inr u1 \<and> ConvertToUnified b2 = Inr u2
           \<and> normalized u1 = normalized u2
           \<and> UnifiedToDeepSeek Sprintv u1 = UnifiedToDeepSeek Sprintv u2
           \<and> UnifiedToGemini Sprintv u1 = UnifiedToGemini Sprintv u2"
    using cu unified_pair[OF p(3,4)] by (intro exI conjI)
qed

theorem single_text_part_equivalence_witness:
  "DetectInputFormat (body_parts ''g'') = FormatOpenAI
   \<and> DetectInputFormat (body_chat ''g'') = FormatOpenAI
   \<and> ConvertToUnified (body_parts ''g'') = Inr unified_parts
   \<and> ConvertToUnified (body_chat ''g'') = Inr unified_chat
   \<and> normalized unified_parts = normalized unified_chat
   \<and> UnifiedToDeepSeek Sprintv_unused unified_parts = UnifiedToDeepSeek Sprintv_unused unified_chat
   \<and> UnifiedToGemini Sprintv_unused unified_parts = UnifiedToGemini Sprintv_unused unified_chat"
proof -
  let ?m1 = "[(''role'', JStr ''user''), (''content'', single_text ''hi'')]"
  let ?m2 = "[(''role'', JStr ''user''), (''content'', JStr ''hi'')]"
  let ?r1 = "[(''model'', JStr ''g''), (''messages'', JArr [JObj ?m1])]"
  let ?r2 = "[(''model'', JStr ''g''), (''messages'', JArr [JObj ?m2])]"
  have h: "DetectInputFormat (body_parts ''g'') = FormatOpenAI
      \<and> DetectInputFormat (body_chat ''g'') = FormatOpenAI
      \<and> rb_map (body_parts ''g'') = Inr ?r1 \<and> rb_map (body_chat ''g'') = Inr ?r2
      \<and> (\<forall>k. k \<noteq> ''messages'' \<longrightarrow> map_of ?r1 k = map_of ?r2 k)
      \<and> map_of ?r1 ''messages'' = Some (JArr ([] @ [JObj ?m1] @ []))
      \<and> map_of ?r2 ''messages'' = Some (JArr ([] @ [JObj ?m2] @ []))
      \<and> (\<forall>k. k \<noteq> ''content'' \<longrightarrow> map_of ?m1 k = map_of ?m2 k)
      \<and> map_of ?m1 ''content'' = Some (single_text ''hi'')
      \<and> map_of ?m2 ''content'' = Some (JStr ''hi'')"
    by (simp add: DetectInputFormat_def body_parts_def body_chat_def)
  have e: "ConvertToUnified (body_chat ''g'') = Inr unified_chat"
    by (simp add: ConvertToUnified_body_chat unified_chat_def)
  show ?thesis
    using single_text_part_equivalence[of "body_parts ''g''" "body_chat ''g''" ?r1 ?r2 "[]" ?m1 "[]"
        ?m2 "''hi''" Sprintv_unused] h
    by (simp add: ConvertToUnified_body_parts e)
qed

end
